theory Spec2Isabelle
  imports Main
begin

section \<open>JavaScript values\<close>

text \<open>
  The entity validator of \<^verbatim>\<open>packages/strapi/lib/services/entity-validator/index.js\<close>
  reads attribute descriptors and candidate data, both plain JavaScript values, and
  builds a tree of yup schemas from them. A JavaScript value is modelled by \<open>jsval\<close>.
  A number with an integer value is \<open>JInt\<close>; any other number (a fraction,
  \<^verbatim>\<open>NaN\<close>, an infinity) is \<open>JNonInt\<close> with its literal, since the module only asks
  whether a number is an integer and whether it is truthy. An object is an association
  list in key order; a lookup takes the first entry of a key.
\<close>

datatype jsval =
    JUndefined
  | JNull
  | JBool bool
  | JInt int
  | JNonInt string
  | JStr string
  | JArr "jsval list"
  | JObj "(string \<times> jsval) list"

text \<open>Truthiness, as \<^verbatim>\<open>if (x)\<close>, \<^verbatim>\<open>!x\<close>, \<^verbatim>\<open>x && y\<close> and \<^verbatim>\<open>x || y\<close> use it.\<close>

fun truthy :: "jsval \<Rightarrow> bool" where
  "truthy JUndefined = False"
| "truthy JNull = False"
| "truthy (JBool b) = b"
| "truthy (JInt i) = (i \<noteq> 0)"
| "truthy (JNonInt s) = (s \<noteq> ''NaN'')"
| "truthy (JStr s) = (s \<noteq> [])"
| "truthy (JArr xs) = True"
| "truthy (JObj kvs) = True"

definition js_not :: "jsval \<Rightarrow> jsval" where
  "js_not a = JBool (\<not> truthy a)"

definition js_and :: "jsval \<Rightarrow> jsval \<Rightarrow> jsval" where
  "js_and a b = (if truthy a then b else a)"

definition js_or :: "jsval \<Rightarrow> jsval \<Rightarrow> jsval" where
  "js_or a b = (if truthy a then a else b)"

text \<open>\<^verbatim>\<open>Number.isInteger\<close> and \<^verbatim>\<open>Array.isArray\<close>.\<close>

fun isInteger :: "jsval \<Rightarrow> bool" where
  "isInteger (JInt i) = True"
| "isInteger v = False"

fun isArray :: "jsval \<Rightarrow> bool" where
  "isArray (JArr xs) = True"
| "isArray v = False"

text \<open>\<^verbatim>\<open>Array.isArray(data) && data.length > 0\<close>.\<close>

fun nonEmptyArray :: "jsval \<Rightarrow> bool" where
  "nonEmptyArray (JArr xs) = (length xs > 0)"
| "nonEmptyArray v = False"

text \<open>
  A property read \<^verbatim>\<open>o.k\<close> on an object: \<^verbatim>\<open>undefined\<close> when the key is missing.
\<close>

definition obj_get :: "(string \<times> jsval) list \<Rightarrow> string \<Rightarrow> jsval" where
  "obj_get kvs k = (case map_of kvs k of None \<Rightarrow> JUndefined | Some v \<Rightarrow> v)"

text \<open>
  lodash's \<^verbatim>\<open>_.get(data, name)\<close> for a plain key: the property of an object, and
  \<^verbatim>\<open>undefined\<close> on \<^verbatim>\<open>null\<close>, \<^verbatim>\<open>undefined\<close> and the primitive values. Attribute
  names are plain keys (no path syntax), and the own properties of arrays and strings
  (\<^verbatim>\<open>length\<close>, indices) are not attribute names.
\<close>

fun js_get :: "jsval \<Rightarrow> string \<Rightarrow> jsval" where
  "js_get (JObj kvs) k = obj_get kvs k"
| "js_get v k = JUndefined"

text \<open>\<^verbatim>\<open>_.get(o, k, dflt)\<close>: the default replaces an \<^verbatim>\<open>undefined\<close> result.\<close>

definition obj_get_or :: "(string \<times> jsval) list \<Rightarrow> string \<Rightarrow> jsval \<Rightarrow> jsval" where
  "obj_get_or kvs k dflt = (if obj_get kvs k = JUndefined then dflt else obj_get kvs k)"

section \<open>Schemas\<close>

text \<open>
  An attribute descriptor is an object (\<^verbatim>\<open>type\<close>, \<^verbatim>\<open>required\<close>, \<^verbatim>\<open>default\<close>,
  \<^verbatim>\<open>min\<close>, \<^verbatim>\<open>max\<close>, \<^verbatim>\<open>repeatable\<close>, \<^verbatim>\<open>collection\<close>, \<^verbatim>\<open>model\<close>, \<^verbatim>\<open>plugin\<close>, and
  whatever the registries read). A model carries its \<^verbatim>\<open>attributes\<close> object, which
  may be missing (\<^verbatim>\<open>fp.getOr({}, 'attributes')\<close>); \<open>uid\<close> tells models apart for the
  registries.
\<close>

type_synonym attr = "(string \<times> jsval) list"

record model =
  uid :: string
  attributes :: "(string \<times> attr) list option"

text \<open>The two values of \<^verbatim>\<open>createOrUpdate\<close> the module is instantiated with.\<close>

datatype mode = Creation | Update

section \<open>Validator nodes\<close>

text \<open>
  A validator node records the yup builder calls that produced it, innermost first:
  \<^verbatim>\<open>yup.array().of(e).notNil().min(1)\<close> is \<open>YMin (JInt 1) (YNotNil (YArrayOf e))\<close>.
  The function handed to \<^verbatim>\<open>yup.lazy\<close> runs when a value is validated; the two
  functions the module passes are recorded with the variables they close over.
\<close>

datatype lazy =
    ComponentItem mode model jsval
  | DzItem mode jsval

datatype validator =
    YMixed
  | YString
  | YLeaf attr jsval
  | YArrayOf validator
  | YObject "(string \<times> validator) list"
  | YLazy lazy
  | YConcat validator validator
  | YNotNil validator
  | YNotNull validator
  | YNullable validator
  | YRequired validator
  | YOneOf "string list" validator
  | YMin jsval validator
  | YMax jsval validator
  | YDefault jsval validator
  | YTransformOriginal validator

text \<open>
  \<open>YLeaf attr isDraft\<close> is \<^verbatim>\<open>validators[attr.type](attr, { isDraft })\<close>, the schema
  the leaf registry \<^verbatim>\<open>./validators\<close> builds; \<open>YTransformOriginal\<close> is
  \<^verbatim>\<open>.transform((val, originalVal) => originalVal)\<close>.
\<close>

section \<open>Errors and outcomes\<close>

datatype seg = Key string | Index nat

datatype issue = Issue (issue_path: "seg list") (issue_test: string)

datatype exn =
    Error string
  | ValidationError "issue list"
  | BadRequest string jsval

text \<open>
  A call returns, throws, or runs out of fuel. Building the validator of a singular
  component recurses into the component's model at once, so construction does not end
  on a component that contains itself; \<open>Diverge\<close> is the value of a run the fuel did
  not cover.
\<close>

datatype 'a outcome = Ok 'a | Throw exn | Diverge

fun and_then :: "'a outcome \<Rightarrow> ('a \<Rightarrow> 'b outcome) \<Rightarrow> 'b outcome" where
  "and_then (Ok a) f = f a"
| "and_then (Throw e) f = Throw e"
| "and_then Diverge f = Diverge"

fun map_ok :: "('a \<Rightarrow> 'b) \<Rightarrow> 'a outcome \<Rightarrow> 'b outcome" where
  "map_ok f (Ok a) = Ok (f a)"
| "map_ok f (Throw e) = Throw e"
| "map_ok f Diverge = Diverge"

section \<open>The collaborators\<close>

text \<open>
  What the module takes from outside: \<^verbatim>\<open>contentTypesUtils.getNonWritableAttributes\<close>,
  \<^verbatim>\<open>strapi.db.getModelsByAttribute\<close>, \<^verbatim>\<open>strapi.getModel\<close>, the keys of
  \<^verbatim>\<open>strapi.components\<close>, the keys of the leaf registry (\<^verbatim>\<open>attr.type in validators\<close>)
  and \<^verbatim>\<open>formatYupErrors\<close>. Each is a parameter. So are two things the validation
  engine and the leaf registry decide: \<open>coerce\<close>, the implicit type coercion of a
  base schema (the transforms yup installs on \<^verbatim>\<open>string()\<close>, \<^verbatim>\<open>array()\<close>,
  \<^verbatim>\<open>object()\<close> and the leaf schemas), applied to a value that is not
  \<^verbatim>\<open>undefined\<close>; and \<open>leafIssues attr isDraft nullable x\<close>, the names of the
  checks of the leaf schema that \<open>x\<close> fails (\<open>''typeError''\<close> among them when the
  value has the wrong type).
\<close>

record env =
  getNonWritableAttributes :: "model \<Rightarrow> string list"
  getModelsByAttribute :: "attr \<Rightarrow> model list"
  getModel :: "jsval \<Rightarrow> model option"
  components :: "string list"
  validators :: "jsval \<Rightarrow> bool"
  formatYupErrors :: "exn \<Rightarrow> jsval outcome"
  coerce :: "validator \<Rightarrow> jsval \<Rightarrow> jsval"
  leafIssues :: "attr \<Rightarrow> jsval \<Rightarrow> bool \<Rightarrow> jsval \<Rightarrow> string list"

section \<open>The attribute classifier and the modifiers\<close>

definition isMedia :: "attr \<Rightarrow> bool" where
  "isMedia attr \<longleftrightarrow>
     js_or (obj_get attr ''collection'') (obj_get attr ''model'') = JStr ''file''
     \<and> obj_get attr ''plugin'' = JStr ''upload''"

definition isSimpleAttribute :: "attr \<Rightarrow> bool" where
  "isSimpleAttribute attr \<longleftrightarrow>
     \<not> truthy (obj_get attr ''collection'') \<and> \<not> truthy (obj_get attr ''model'')
     \<and> obj_get attr ''type'' \<noteq> JStr ''component''
     \<and> obj_get attr ''type'' \<noteq> JStr ''dynamiczone''"

definition addMinMax :: "attr \<Rightarrow> validator \<Rightarrow> jsval \<Rightarrow> validator" where
  "addMinMax attr validator data =
     (let v1 = (if isInteger (obj_get attr ''min'')
                   \<and> (truthy (obj_get attr ''required'') \<or> nonEmptyArray data)
                then YMin (obj_get attr ''min'') validator else validator)
      in if isInteger (obj_get attr ''max'') then YMax (obj_get attr ''max'') v1 else v1)"

definition addRequiredValidation :: "mode \<Rightarrow> jsval \<Rightarrow> validator \<Rightarrow> validator" where
  "addRequiredValidation createOrUpdate required validator =
     (if truthy required then
        (case createOrUpdate of Creation \<Rightarrow> YNotNil validator | Update \<Rightarrow> YNotNull validator)
      else YNullable validator)"

definition addDefault :: "mode \<Rightarrow> attr \<Rightarrow> validator \<Rightarrow> validator" where
  "addDefault createOrUpdate attr validator =
     (case createOrUpdate of
        Creation \<Rightarrow>
          if ((obj_get attr ''type'' = JStr ''component'' \<and> truthy (obj_get attr ''repeatable''))
              \<or> obj_get attr ''type'' = JStr ''dynamiczone'')
             \<and> \<not> truthy (obj_get attr ''required'')
          then YDefault (JArr []) validator
          else YDefault (obj_get attr ''default'') validator
      | Update \<Rightarrow> YDefault JUndefined validator)"

definition preventCast :: "validator \<Rightarrow> validator" where
  "preventCast validator = YTransformOriginal validator"

section \<open>The category validators\<close>

definition createDzValidator :: "mode \<Rightarrow> attr \<Rightarrow> jsval \<Rightarrow> jsval \<Rightarrow> validator" where
  "createDzValidator createOrUpdate attr data isDraft =
     addMinMax attr
       (addRequiredValidation createOrUpdate (JBool True)
          (YArrayOf (YLazy (DzItem createOrUpdate isDraft))))
       data"

definition createRelationValidator :: "mode \<Rightarrow> attr \<Rightarrow> jsval \<Rightarrow> jsval \<Rightarrow> validator" where
  "createRelationValidator createOrUpdate attr data isDraft =
     addRequiredValidation createOrUpdate (js_and (js_not isDraft) (obj_get attr ''required''))
       (if isArray data then YArrayOf YMixed else YMixed)"

definition createSimpleAttributeValidator :: "env \<Rightarrow> mode \<Rightarrow> attr \<Rightarrow> jsval \<Rightarrow> validator" where
  "createSimpleAttributeValidator env createOrUpdate attr isDraft =
     addRequiredValidation createOrUpdate (js_and (js_not isDraft) (obj_get attr ''required''))
       (if validators env (obj_get attr ''type'') then YLeaf attr isDraft else YMixed)"

text \<open>
  \<^verbatim>\<open>mapValues\<close> over the picked attributes, in key order; the first callback that
  throws ends the loop. The callback takes the attribute and its name.
\<close>

fun mapValuesWithKey ::
  "('a \<Rightarrow> string \<Rightarrow> 'b outcome) \<Rightarrow> (string \<times> 'a) list \<Rightarrow> (string \<times> 'b) list outcome" where
  "mapValuesWithKey f [] = Ok []"
| "mapValuesWithKey f ((k, a) # rest) =
     and_then (f a k) (\<lambda>b. map_ok (\<lambda>bs. (k, b) # bs) (mapValuesWithKey f rest))"

definition pickByWithKey :: "('a \<Rightarrow> string \<Rightarrow> bool) \<Rightarrow> (string \<times> 'a) list \<Rightarrow> (string \<times> 'a) list" where
  "pickByWithKey p kvs = filter (\<lambda>(k, a). p a k) kvs"

text \<open>
  The three mutually recursive builders. The fuel bounds the depth of models entered
  while building; a model validator of a model nested deeper is \<open>Diverge\<close>.
\<close>

fun createModelValidator ::
    "env \<Rightarrow> nat \<Rightarrow> mode \<Rightarrow> model option \<Rightarrow> jsval \<Rightarrow> jsval \<Rightarrow> validator outcome"
  and createAttributeValidator ::
    "env \<Rightarrow> nat \<Rightarrow> mode \<Rightarrow> attr \<Rightarrow> jsval \<Rightarrow> jsval \<Rightarrow> validator outcome"
  and createComponentValidator ::
    "env \<Rightarrow> nat \<Rightarrow> mode \<Rightarrow> attr \<Rightarrow> jsval \<Rightarrow> jsval \<Rightarrow> validator outcome"
where
  "createModelValidator env 0 createOrUpdate model data isDraft = Diverge"
| "createModelValidator env (Suc n) createOrUpdate model data isDraft =
     (let nonWritableAttributes =
            (case model of Some m \<Rightarrow> getNonWritableAttributes env m | None \<Rightarrow> [])
      in map_ok YObject
           (mapValuesWithKey
              (\<lambda>attr attrName.
                 createAttributeValidator env n createOrUpdate attr (js_get data attrName) isDraft)
              (pickByWithKey (\<lambda>attr attrName. attrName \<notin> set nonWritableAttributes)
                 (case model of
                    None \<Rightarrow> []
                  | Some m \<Rightarrow> (case attributes m of None \<Rightarrow> [] | Some attrs \<Rightarrow> attrs)))))"
| "createAttributeValidator env n createOrUpdate attr data isDraft =
     map_ok (addDefault createOrUpdate attr)
       (if isMedia attr then Ok YMixed
        else if isSimpleAttribute attr then
          Ok (createSimpleAttributeValidator env createOrUpdate attr isDraft)
        else
          map_ok preventCast
            (if obj_get attr ''type'' = JStr ''component'' then
               createComponentValidator env n createOrUpdate attr data isDraft
             else if obj_get attr ''type'' = JStr ''dynamiczone'' then
               Ok (createDzValidator createOrUpdate attr data isDraft)
             else Ok (createRelationValidator createOrUpdate attr data isDraft)))"
| "createComponentValidator env n createOrUpdate attr data isDraft =
     (case getModelsByAttribute env attr of
        [] \<Rightarrow> Throw (Error ''Validation failed: Model not found'')
      | model # others \<Rightarrow>
          if obj_get_or attr ''repeatable'' (JBool False) = JBool True then
            Ok (addMinMax attr
                  (addRequiredValidation createOrUpdate (JBool True)
                     (YArrayOf (YLazy (ComponentItem createOrUpdate model isDraft))))
                  data)
          else
            map_ok
              (addRequiredValidation createOrUpdate
                 (js_and (js_not isDraft) (obj_get attr ''required'')))
              (createModelValidator env n createOrUpdate (Some model) data isDraft))"

text \<open>
  The functions given to \<^verbatim>\<open>yup.lazy\<close>, run on the item being validated: the item of
  a repeatable component, and the entry of a dynamic zone.
\<close>

definition dzEntrySchema :: "env \<Rightarrow> validator" where
  "dzEntrySchema env =
     YNotNull (YObject [(''__component'', YOneOf (components env) (YRequired YString))])"

fun resolveLazy :: "env \<Rightarrow> nat \<Rightarrow> lazy \<Rightarrow> jsval \<Rightarrow> validator outcome" where
  "resolveLazy env n (ComponentItem createOrUpdate model isDraft) item =
     map_ok YNotNull (createModelValidator env n createOrUpdate (Some model) item isDraft)"
| "resolveLazy env n (DzItem createOrUpdate isDraft) item =
     (case getModel env (js_get item ''__component'') of
        Some model \<Rightarrow>
          map_ok (YConcat (dzEntrySchema env))
            (createModelValidator env n createOrUpdate (Some model) item isDraft)
      | None \<Rightarrow> Ok (dzEntrySchema env))"

section \<open>What a validator node is configured with\<close>

text \<open>
  Readings of a node's chain of builder calls: whether \<^verbatim>\<open>nullable()\<close> was called,
  the last \<^verbatim>\<open>min\<close> and \<^verbatim>\<open>max\<close>, whether the cast-preventing transform was added,
  the base schema under the modifiers, the default set last, and the tests added.
\<close>

fun isNullable :: "validator \<Rightarrow> bool" where
  "isNullable (YNullable v) = True"
| "isNullable (YNotNil v) = isNullable v"
| "isNullable (YNotNull v) = isNullable v"
| "isNullable (YRequired v) = isNullable v"
| "isNullable (YOneOf vs v) = isNullable v"
| "isNullable (YMin m v) = isNullable v"
| "isNullable (YMax m v) = isNullable v"
| "isNullable (YDefault d v) = isNullable v"
| "isNullable (YTransformOriginal v) = isNullable v"
| "isNullable v = False"

fun minOf :: "validator \<Rightarrow> jsval option" where
  "minOf (YMin m v) = Some m"
| "minOf (YNullable v) = minOf v"
| "minOf (YNotNil v) = minOf v"
| "minOf (YNotNull v) = minOf v"
| "minOf (YRequired v) = minOf v"
| "minOf (YOneOf vs v) = minOf v"
| "minOf (YMax m v) = minOf v"
| "minOf (YDefault d v) = minOf v"
| "minOf (YTransformOriginal v) = minOf v"
| "minOf v = None"

fun maxOf :: "validator \<Rightarrow> jsval option" where
  "maxOf (YMax m v) = Some m"
| "maxOf (YNullable v) = maxOf v"
| "maxOf (YNotNil v) = maxOf v"
| "maxOf (YNotNull v) = maxOf v"
| "maxOf (YRequired v) = maxOf v"
| "maxOf (YOneOf vs v) = maxOf v"
| "maxOf (YMin m v) = maxOf v"
| "maxOf (YDefault d v) = maxOf v"
| "maxOf (YTransformOriginal v) = maxOf v"
| "maxOf v = None"

fun castPrevented :: "validator \<Rightarrow> bool" where
  "castPrevented (YTransformOriginal v) = True"
| "castPrevented (YNullable v) = castPrevented v"
| "castPrevented (YNotNil v) = castPrevented v"
| "castPrevented (YNotNull v) = castPrevented v"
| "castPrevented (YRequired v) = castPrevented v"
| "castPrevented (YOneOf vs v) = castPrevented v"
| "castPrevented (YMin m v) = castPrevented v"
| "castPrevented (YMax m v) = castPrevented v"
| "castPrevented (YDefault d v) = castPrevented v"
| "castPrevented v = False"

fun baseOf :: "validator \<Rightarrow> validator" where
  "baseOf (YNullable v) = baseOf v"
| "baseOf (YNotNil v) = baseOf v"
| "baseOf (YNotNull v) = baseOf v"
| "baseOf (YRequired v) = baseOf v"
| "baseOf (YOneOf vs v) = baseOf v"
| "baseOf (YMin m v) = baseOf v"
| "baseOf (YMax m v) = baseOf v"
| "baseOf (YDefault d v) = baseOf v"
| "baseOf (YTransformOriginal v) = baseOf v"
| "baseOf v = v"

text \<open>The default set last, if any.\<close>

fun explicitDefault :: "validator \<Rightarrow> jsval option" where
  "explicitDefault (YDefault d v) = Some d"
| "explicitDefault (YNotNil v) = explicitDefault v"
| "explicitDefault (YNotNull v) = explicitDefault v"
| "explicitDefault (YNullable v) = explicitDefault v"
| "explicitDefault (YRequired v) = explicitDefault v"
| "explicitDefault (YOneOf vs v) = explicitDefault v"
| "explicitDefault (YMin m v) = explicitDefault v"
| "explicitDefault (YMax m v) = explicitDefault v"
| "explicitDefault (YTransformOriginal v) = explicitDefault v"
| "explicitDefault v = None"

text \<open>
  The tests a modifier can add, and the tests the modifiers of a node have added, in the
  order of the calls.
\<close>

datatype test = TNotNil | TNotNull | TRequired | TOneOf "string list" | TMin jsval | TMax jsval

fun testsOf :: "validator \<Rightarrow> test list" where
  "testsOf (YNotNil v) = testsOf v @ [TNotNil]"
| "testsOf (YNotNull v) = testsOf v @ [TNotNull]"
| "testsOf (YRequired v) = testsOf v @ [TRequired]"
| "testsOf (YOneOf vs v) = testsOf v @ [TOneOf vs]"
| "testsOf (YMin m v) = testsOf v @ [TMin m]"
| "testsOf (YMax m v) = testsOf v @ [TMax m]"
| "testsOf (YNullable v) = testsOf v"
| "testsOf (YDefault d v) = testsOf v"
| "testsOf (YTransformOriginal v) = testsOf v"
| "testsOf v = []"

section \<open>The validation engine\<close>

text \<open>
  Modelled from the spec: the Validator Node engine. The module only composes yup
  schemas; what a schema does to a value is decided by the yup library and by the
  \<^verbatim>\<open>notNil\<close> and \<^verbatim>\<open>notNull\<close> methods that \<^verbatim>\<open>strapi-utils\<close> adds to it, neither of
  which is part of the sources. The engine below gives the builder calls the meaning
  the spec's Modifier Pipeline states: a default replaces an \<^verbatim>\<open>undefined\<close> value,
  and a node has no default but the one \<^verbatim>\<open>default()\<close> sets on it; cast-prevention passes the raw value through; \<^verbatim>\<open>notNil\<close> rejects \<^verbatim>\<open>undefined\<close> and
  \<^verbatim>\<open>null\<close>, \<^verbatim>\<open>notNull\<close> rejects \<^verbatim>\<open>null\<close>; a value of the wrong type is a type error
  (\<^verbatim>\<open>null\<close> is one unless the node is nullable) and ends the node's own checks;
  \<^verbatim>\<open>min\<close> and \<^verbatim>\<open>max\<close> bound the length of an array; an object node validates the
  keys of its shape and an array node its elements; a lazy node is resolved on the
  value it meets. A run first casts the whole value, then checks the cast value.
\<close>

fun testName :: "test \<Rightarrow> string" where
  "testName TNotNil = ''notNil''"
| "testName TNotNull = ''notNull''"
| "testName TRequired = ''required''"
| "testName (TOneOf vs) = ''oneOf''"
| "testName (TMin m) = ''min''"
| "testName (TMax m) = ''max''"

fun isNil :: "jsval \<Rightarrow> bool" where
  "isNil JUndefined = True"
| "isNil JNull = True"
| "isNil v = False"

fun testFails :: "test \<Rightarrow> jsval \<Rightarrow> bool" where
  "testFails TNotNil x = isNil x"
| "testFails TNotNull x = (x = JNull)"
| "testFails TRequired x = (isNil x \<or> x = JStr [])"
| "testFails (TOneOf vs) x = (x \<noteq> JUndefined \<and> x \<notin> JStr ` set vs)"
| "testFails (TMin (JInt m)) (JArr xs) = (int (length xs) < m)"
| "testFails (TMin m) x = False"
| "testFails (TMax (JInt m)) (JArr xs) = (int (length xs) > m)"
| "testFails (TMax m) x = False"

fun isWhitelist :: "test \<Rightarrow> bool" where
  "isWhitelist (TOneOf vs) = True"
| "isWhitelist t = False"

text \<open>The type a base schema accepts; a leaf schema reports its own type errors.\<close>

fun typeOk :: "validator \<Rightarrow> jsval \<Rightarrow> bool" where
  "typeOk YString (JStr s) = True"
| "typeOk YString x = False"
| "typeOk (YArrayOf e) (JArr xs) = True"
| "typeOk (YArrayOf e) x = False"
| "typeOk (YObject fs) (JObj kvs) = True"
| "typeOk (YObject fs) x = False"
| "typeOk v x = True"

text \<open>
  The checks of one node on one value: the type error and the \<^verbatim>\<open>oneOf\<close> list first;
  the other tests, in the order they were added, only when those pass.
\<close>

definition ownIssues ::
  "env \<Rightarrow> validator \<Rightarrow> bool \<Rightarrow> test list \<Rightarrow> seg list \<Rightarrow> jsval \<Rightarrow> issue list" where
  "ownIssues env base nullable tests path x =
     (let leaf = (case base of
                    YLeaf attr isDraft \<Rightarrow> leafIssues env attr isDraft nullable x
                  | _ \<Rightarrow> []);
          typeError = (if x = JUndefined \<or> (x = JNull \<and> nullable) \<or> typeOk base x
                       then [] else [''typeError'']);
          initial = leaf @ typeError
                    @ map testName (filter (\<lambda>t. isWhitelist t \<and> testFails t x) tests)
      in map (Issue path)
           (if ''typeError'' \<in> set initial \<or> ''oneOf'' \<in> set initial then initial
            else initial
                 @ map testName (filter (\<lambda>t. \<not> isWhitelist t \<and> testFails t x) tests)))"

fun collect :: "'a list outcome list \<Rightarrow> 'a list outcome" where
  "collect [] = Ok []"
| "collect (r # rs) = and_then r (\<lambda>a. map_ok (\<lambda>as. a @ as) (collect rs))"

fun sequence :: "'a outcome list \<Rightarrow> 'a list outcome" where
  "sequence [] = Ok []"
| "sequence (r # rs) = and_then r (\<lambda>a. map_ok (\<lambda>as. a # as) (sequence rs))"

text \<open>
  \<open>check env n nullable tests v path x\<close>: the issues of \<open>x\<close> against \<open>v\<close>, where
  \<open>nullable\<close> and \<open>tests\<close> are what the modifiers around \<open>v\<close> have set. Resolving a
  lazy node takes one unit of fuel.
\<close>

fun check ::
  "env \<Rightarrow> nat \<Rightarrow> bool \<Rightarrow> test list \<Rightarrow> validator \<Rightarrow> seg list \<Rightarrow> jsval \<Rightarrow> issue list outcome" where
  "check env n nl ts (YNotNil v) p x = check env n nl (TNotNil # ts) v p x"
| "check env n nl ts (YNotNull v) p x = check env n nl (TNotNull # ts) v p x"
| "check env n nl ts (YRequired v) p x = check env n nl (TRequired # ts) v p x"
| "check env n nl ts (YOneOf vs v) p x = check env n nl (TOneOf vs # ts) v p x"
| "check env n nl ts (YMin m v) p x = check env n nl (TMin m # ts) v p x"
| "check env n nl ts (YMax m v) p x = check env n nl (TMax m # ts) v p x"
| "check env n nl ts (YNullable v) p x = check env n True ts v p x"
| "check env n nl ts (YDefault d v) p x = check env n nl ts v p x"
| "check env n nl ts (YTransformOriginal v) p x = check env n nl ts v p x"
| "check env n nl ts YMixed p x = Ok (ownIssues env YMixed nl ts p x)"
| "check env n nl ts YString p x = Ok (ownIssues env YString nl ts p x)"
| "check env n nl ts (YLeaf attr isDraft) p x =
     Ok (ownIssues env (YLeaf attr isDraft) nl ts p x)"
| "check env n nl ts (YArrayOf e) p x =
     map_ok (\<lambda>inner. ownIssues env (YArrayOf e) nl ts p x @ inner)
       (case x of
          JArr xs \<Rightarrow>
            collect (map (\<lambda>(i, xi). check env n False [] e (p @ [Index i]) xi)
                       (enumerate 0 xs))
        | _ \<Rightarrow> Ok [])"
| "check env n nl ts (YObject fs) p x =
     map_ok (\<lambda>inner. ownIssues env (YObject fs) nl ts p x @ inner)
       (case x of
          JObj kvs \<Rightarrow>
            collect (map (\<lambda>(k, f). check env n False [] f (p @ [Key k]) (obj_get kvs k)) fs)
        | _ \<Rightarrow> Ok [])"
| "check env n nl ts (YConcat a b) p x =
     and_then (check env n nl ts a p x)
       (\<lambda>ia. map_ok (\<lambda>ib. remdups (ia @ ib)) (check env n nl ts b p x))"
| "check env 0 nl ts (YLazy l) p x = Diverge"
| "check env (Suc n) nl ts (YLazy l) p x =
     and_then (resolveLazy env n l x) (\<lambda>v. check env n nl ts v p x)"

text \<open>
  The cast of one node's own value: an \<^verbatim>\<open>undefined\<close> value skips the transforms,
  cast-prevention returns the raw value, a value that already has the type of a
  \<^verbatim>\<open>string()\<close>, \<^verbatim>\<open>array()\<close> or \<^verbatim>\<open>object()\<close> node is not coerced (a \<^verbatim>\<open>mixed()\<close>
  node coerces nothing), and a default replaces an \<^verbatim>\<open>undefined\<close> result.
\<close>

fun coerces :: "validator \<Rightarrow> jsval \<Rightarrow> bool" where
  "coerces (YLeaf attr isDraft) x = True"
| "coerces base x = (\<not> typeOk base x)"

definition transformed :: "env \<Rightarrow> bool \<Rightarrow> jsval option \<Rightarrow> validator \<Rightarrow> jsval \<Rightarrow> jsval" where
  "transformed env original dflt base x =
     (let y = (if x = JUndefined \<or> original \<or> \<not> coerces base x then x
               else coerce env base x)
      in if y = JUndefined then (case dflt of Some d \<Rightarrow> d | None \<Rightarrow> JUndefined) else y)"

text \<open>
  \<open>cast env n original dflt v x\<close>, where \<open>original\<close> and \<open>dflt\<close> are the
  cast-prevention and the default the modifiers around \<open>v\<close> have set. An object keeps
  the keys outside its shape, and a key of the shape only when its cast value is not
  \<^verbatim>\<open>undefined\<close>.
\<close>

fun cast ::
  "env \<Rightarrow> nat \<Rightarrow> bool \<Rightarrow> jsval option \<Rightarrow> validator \<Rightarrow> jsval \<Rightarrow> jsval outcome" where
  "cast env n orig dflt (YDefault d v) x =
     cast env n orig (case dflt of None \<Rightarrow> Some d | Some d' \<Rightarrow> Some d') v x"
| "cast env n orig dflt (YTransformOriginal v) x = cast env n True dflt v x"
| "cast env n orig dflt (YNotNil v) x = cast env n orig dflt v x"
| "cast env n orig dflt (YNotNull v) x = cast env n orig dflt v x"
| "cast env n orig dflt (YRequired v) x = cast env n orig dflt v x"
| "cast env n orig dflt (YOneOf vs v) x = cast env n orig dflt v x"
| "cast env n orig dflt (YMin m v) x = cast env n orig dflt v x"
| "cast env n orig dflt (YMax m v) x = cast env n orig dflt v x"
| "cast env n orig dflt (YNullable v) x = cast env n orig dflt v x"
| "cast env n orig dflt YMixed x = Ok (transformed env orig dflt YMixed x)"
| "cast env n orig dflt YString x = Ok (transformed env orig dflt YString x)"
| "cast env n orig dflt (YLeaf attr isDraft) x =
     Ok (transformed env orig dflt (YLeaf attr isDraft) x)"
| "cast env n orig dflt (YArrayOf e) x =
     (case transformed env orig dflt (YArrayOf e) x of
        JArr ys \<Rightarrow> map_ok JArr (sequence (map (\<lambda>y. cast env n False None e y) ys))
      | y \<Rightarrow> Ok y)"
| "cast env n orig dflt (YObject fs) x =
     (case transformed env orig dflt (YObject fs) x of
        JObj kvs \<Rightarrow>
          map_ok
            (\<lambda>cs. JObj (filter (\<lambda>(k, c). c \<noteq> JUndefined) cs
                         @ filter (\<lambda>(k, c). k \<notin> fst ` set fs) kvs))
            (sequence
               (map (\<lambda>(k, f). map_ok (Pair k) (cast env n False None f (obj_get kvs k)))
                  fs))
      | y \<Rightarrow> Ok y)"
| "cast env n orig dflt (YConcat a b) x =
     and_then (cast env n orig dflt a x) (\<lambda>y. cast env n orig dflt b y)"
| "cast env 0 orig dflt (YLazy l) x = Diverge"
| "cast env (Suc n) orig dflt (YLazy l) x =
     and_then (resolveLazy env n l x) (\<lambda>v. cast env n orig dflt v x)"

text \<open>
  \<^verbatim>\<open>validator.validate(x, { abortEarly })\<close>: the cast value, or a
  \<^verbatim>\<open>ValidationError\<close> with the issues found; with \<^verbatim>\<open>abortEarly\<close> only the first.
\<close>

definition validate :: "env \<Rightarrow> nat \<Rightarrow> validator \<Rightarrow> jsval \<Rightarrow> bool \<Rightarrow> jsval outcome" where
  "validate env n validator x abortEarly =
     and_then (cast env n False None validator x)
       (\<lambda>y. and_then (check env n False [] validator [] y)
          (\<lambda>issues. if issues = [] then Ok y
                     else Throw (ValidationError (if abortEarly then take 1 issues else issues))))"

section \<open>The entry point\<close>

text \<open>
  \<^verbatim>\<open>createValidateEntity(createOrUpdate)(model, data, { isDraft = false } = {})\<close>. The
  last argument is the \<^verbatim>\<open>isDraft\<close> property of the options, \<^verbatim>\<open>undefined\<close> when the
  bag or the property is missing. Whatever the \<^verbatim>\<open>try\<close> block throws, while building
  or while validating, goes to \<^verbatim>\<open>formatYupErrors\<close> and is thrown again as
  \<^verbatim>\<open>strapi.errors.badRequest('ValidationError', { errors })\<close>.
\<close>

definition createValidateEntity ::
  "env \<Rightarrow> nat \<Rightarrow> mode \<Rightarrow> model option \<Rightarrow> jsval \<Rightarrow> jsval \<Rightarrow> jsval outcome" where
  "createValidateEntity env n createOrUpdate model data isDraftOption =
     (let isDraft = (if isDraftOption = JUndefined then JBool False else isDraftOption)
      in case and_then (createModelValidator env n createOrUpdate model data isDraft)
                (\<lambda>validator. validate env n (YRequired validator) data False) of
           Ok normalized \<Rightarrow> Ok normalized
         | Throw e \<Rightarrow>
             and_then (formatYupErrors env e)
               (\<lambda>errors. Throw (BadRequest ''ValidationError'' errors))
         | Diverge \<Rightarrow> Diverge)"

definition validateEntityCreation ::
  "env \<Rightarrow> nat \<Rightarrow> model option \<Rightarrow> jsval \<Rightarrow> jsval \<Rightarrow> jsval outcome" where
  "validateEntityCreation env n = createValidateEntity env n Creation"

definition validateEntityUpdate ::
  "env \<Rightarrow> nat \<Rightarrow> model option \<Rightarrow> jsval \<Rightarrow> jsval \<Rightarrow> jsval outcome" where
  "validateEntityUpdate env n = createValidateEntity env n Update"

section \<open>A sample registry\<close>

text \<open>
  Concrete collaborators and schemas, to run the module on. The registry knows one
  component, \<^verbatim>\<open>default.tag\<close>, with a required string \<^verbatim>\<open>name\<close>; the leaf registry
  knows the type \<^verbatim>\<open>string\<close>; \<^verbatim>\<open>id\<close> is not writable. The formatter lists the issues
  of a validation error, and throws any other error again.
\<close>

definition tagModel :: model where
  "tagModel =
     \<lparr> uid = ''default.tag'',
       attributes = Some [(''name'', [(''type'', JStr ''string''), (''required'', JBool True)])] \<rparr>"

fun segToJs :: "seg \<Rightarrow> jsval" where
  "segToJs (Key k) = JStr k"
| "segToJs (Index i) = JInt (int i)"

definition issueToJs :: "issue \<Rightarrow> jsval" where
  "issueToJs i =
     JObj [(''path'', JArr (map segToJs (issue_path i))), (''message'', JStr (issue_test i))]"

fun sampleFormat :: "exn \<Rightarrow> jsval outcome" where
  "sampleFormat (ValidationError issues) = Ok (JArr (map issueToJs issues))"
| "sampleFormat e = Throw e"

fun sampleCoerce :: "validator \<Rightarrow> jsval \<Rightarrow> jsval" where
  "sampleCoerce (YArrayOf e) x = JNull"
| "sampleCoerce (YObject fs) x = JNull"
| "sampleCoerce base x = x"

fun sampleLeafIssues :: "attr \<Rightarrow> jsval \<Rightarrow> bool \<Rightarrow> jsval \<Rightarrow> string list" where
  "sampleLeafIssues attr isDraft nullable (JStr s) = []"
| "sampleLeafIssues attr isDraft nullable JUndefined = []"
| "sampleLeafIssues attr isDraft nullable JNull = (if nullable then [] else [''typeError''])"
| "sampleLeafIssues attr isDraft nullable x = [''typeError'']"

definition sampleEnv :: env where
  "sampleEnv =
     \<lparr> getNonWritableAttributes = (\<lambda>m. [''id'']),
       getModelsByAttribute = (\<lambda>attr. [tagModel]),
       getModel = (\<lambda>name. if name = JStr ''default.tag'' then Some tagModel else None),
       components = [''default.tag''],
       validators = (\<lambda>t. t = JStr ''string''),
       formatYupErrors = sampleFormat,
       coerce = sampleCoerce,
       leafIssues = sampleLeafIssues \<rparr>"


text \<open>
  The schema \<^verbatim>\<open>{tags: {type: component, repeatable: true, min: 1}, target: {type: component}}\<close>
  and the record \<^verbatim>\<open>{tags: []}\<close>; and a required singular component.
\<close>

definition tagsAttr :: attr where
  "tagsAttr = [(''type'', JStr ''component''), (''repeatable'', JBool True), (''min'', JInt 1)]"

definition targetAttr :: attr where
  "targetAttr = [(''type'', JStr ''component'')]"

definition authorAttr :: attr where
  "authorAttr = [(''type'', JStr ''component''), (''required'', JBool True)]"

definition tagsSchema :: model where
  "tagsSchema =
     \<lparr> uid = ''tags-schema'',
       attributes = Some [(''tags'', tagsAttr), (''target'', targetAttr)] \<rparr>"

definition emptyTags :: jsval where
  "emptyTags = JObj [(''tags'', JArr [])]"

text \<open>
  An article: a non-writable \<^verbatim>\<open>id\<close>, three required strings, one of them with a
  default, and a required cover image held by the upload plugin.
\<close>

definition titleAttr :: attr where
  "titleAttr = [(''type'', JStr ''string''), (''required'', JBool True)]"

definition slugAttr :: attr where
  "slugAttr = [(''type'', JStr ''string''), (''required'', JBool True), (''default'', JStr ''x'')]"

definition coverAttr :: attr where
  "coverAttr = [(''model'', JStr ''file''), (''plugin'', JStr ''upload''), (''required'', JBool True)]"

definition articleSchema :: model where
  "articleSchema =
     \<lparr> uid = ''article'',
       attributes = Some [(''id'', [(''type'', JStr ''integer'')]),
                          (''title'', titleAttr),
                          (''summary'', titleAttr),
                          (''body'', titleAttr),
                          (''slug'', slugAttr),
                          (''cover'', coverAttr)] \<rparr>"

text \<open>Two entries of a dynamic zone: one of the registered component, one of none.\<close>

definition knownEntry :: jsval where
  "knownEntry = JObj [(''__component'', JStr ''default.tag''), (''name'', JStr ''x'')]"

definition unknownEntry :: jsval where
  "unknownEntry = JObj [(''__component'', JStr ''unknown.x'')]"

text \<open>
  What the module builds for the article in creation mode, and the issues of the empty
  record against it.
\<close>

definition articleValidator :: validator where
  "articleValidator =
     YObject
       [(''title'', YDefault JUndefined (YNotNil (YLeaf titleAttr (JBool False)))),
        (''summary'', YDefault JUndefined (YNotNil (YLeaf titleAttr (JBool False)))),
        (''body'', YDefault JUndefined (YNotNil (YLeaf titleAttr (JBool False)))),
        (''slug'', YDefault (JStr ''x'') (YNotNil (YLeaf slugAttr (JBool False)))),
        (''cover'', YDefault JUndefined YMixed)]"

definition missingFields :: "issue list" where
  "missingFields =
     [Issue [Key ''title''] ''notNil'', Issue [Key ''summary''] ''notNil'',
      Issue [Key ''body''] ''notNil'']"

section \<open>Outcomes and loops\<close>

lemma map_ok_Ok: "map_ok f r = Ok y \<longleftrightarrow> (\<exists>a. r = Ok a \<and> y = f a)"
  by (cases r) auto

lemma and_then_Ok: "and_then r f = Ok y \<longleftrightarrow> (\<exists>a. r = Ok a \<and> f a = Ok y)"
  by (cases r) auto

lemma mapValuesWithKey_member:
  "mapValuesWithKey f kvs = Ok fs \<Longrightarrow> (k, b) \<in> set fs \<Longrightarrow>
     \<exists>a. (k, a) \<in> set kvs \<and> f a k = Ok b"
proof (induction kvs arbitrary: fs)
  case Nil
  then show ?case by simp
next
  case (Cons ka kvs)
  obtain k' a' where ka: "ka = (k', a')" by (cases ka)
  from Cons.prems(1) obtain b' bs where
    *: "f a' k' = Ok b'" "mapValuesWithKey f kvs = Ok bs" "fs = (k', b') # bs"
    by (auto simp: ka and_then_Ok map_ok_Ok)
  show ?case
  proof (cases "(k, b) = (k', b')")
    case True
    with * show ?thesis by (auto simp: ka)
  next
    case False
    with Cons.prems(2) * have "(k, b) \<in> set bs" by auto
    from Cons.IH [OF *(2) this] show ?thesis by auto
  qed
qed

lemma mapValuesWithKey_keys:
  "mapValuesWithKey f kvs = Ok fs \<Longrightarrow> map fst fs = map fst kvs"
proof (induction kvs arbitrary: fs)
  case Nil
  then show ?case by simp
next
  case (Cons ka kvs)
  obtain k' a' where ka: "ka = (k', a')" by (cases ka)
  from Cons.prems(1) obtain b' bs where
    *: "f a' k' = Ok b'" "mapValuesWithKey f kvs = Ok bs" "fs = (k', b') # bs"
    by (auto simp: ka and_then_Ok map_ok_Ok)
  with Cons.IH show ?case by (simp add: ka)
qed

lemma sequence_Ok_member:
  "sequence rs = Ok ys \<Longrightarrow> y \<in> set ys \<Longrightarrow> Ok y \<in> set rs"
proof (induction rs arbitrary: ys)
  case Nil
  then show ?case by simp
next
  case (Cons r rs)
  from Cons.prems(1) obtain a as where "r = Ok a" "sequence rs = Ok as" "ys = a # as"
    by (auto simp: and_then_Ok map_ok_Ok)
  with Cons.IH Cons.prems(2) show ?case by auto
qed





lemma obj_get_absent: "k \<notin> fst ` set kvs \<Longrightarrow> obj_get kvs k = JUndefined"
  by (simp add: obj_get_def map_of_eq_None_iff [THEN iffD2])

section \<open>The shape of what the builders return\<close>

lemma createModelValidator_Ok:
  assumes "createModelValidator env n createOrUpdate model data isDraft = Ok mv"
  obtains n' fs where "n = Suc n'" "mv = YObject fs"
    "mapValuesWithKey
       (\<lambda>attr attrName.
          createAttributeValidator env n' createOrUpdate attr (js_get data attrName) isDraft)
       (pickByWithKey
          (\<lambda>attr attrName.
             attrName \<notin> set (case model of Some m \<Rightarrow> getNonWritableAttributes env m
                              | None \<Rightarrow> []))
          (case model of
             None \<Rightarrow> []
           | Some m \<Rightarrow> (case attributes m of None \<Rightarrow> [] | Some attrs \<Rightarrow> attrs))) = Ok fs"
  using assms by (cases n) (auto simp: map_ok_Ok Let_def)

lemma createAttributeValidator_cases:
  assumes "createAttributeValidator env n createOrUpdate attr data isDraft = Ok f"
  obtains
    (media) "isMedia attr" "f = addDefault createOrUpdate attr YMixed"
  | (simple) "\<not> isMedia attr" "isSimpleAttribute attr"
      "f = addDefault createOrUpdate attr
             (createSimpleAttributeValidator env createOrUpdate attr isDraft)"
  | (repeatable) m ms where "\<not> isMedia attr" "\<not> isSimpleAttribute attr"
      "obj_get attr ''type'' = JStr ''component''"
      "getModelsByAttribute env attr = m # ms"
      "obj_get_or attr ''repeatable'' (JBool False) = JBool True"
      "f = addDefault createOrUpdate attr
             (preventCast
                (addMinMax attr
                   (addRequiredValidation createOrUpdate (JBool True)
                      (YArrayOf (YLazy (ComponentItem createOrUpdate m isDraft))))
                   data))"
  | (singular) m ms mv where "\<not> isMedia attr" "\<not> isSimpleAttribute attr"
      "obj_get attr ''type'' = JStr ''component''"
      "getModelsByAttribute env attr = m # ms"
      "obj_get_or attr ''repeatable'' (JBool False) \<noteq> JBool True"
      "createModelValidator env n createOrUpdate (Some m) data isDraft = Ok mv"
      "f = addDefault createOrUpdate attr
             (preventCast
                (addRequiredValidation createOrUpdate
                   (js_and (js_not isDraft) (obj_get attr ''required'')) mv))"
  | (dz) "\<not> isMedia attr" "\<not> isSimpleAttribute attr"
      "obj_get attr ''type'' = JStr ''dynamiczone''"
      "f = addDefault createOrUpdate attr
             (preventCast (createDzValidator createOrUpdate attr data isDraft))"
  | (relation) "\<not> isMedia attr" "\<not> isSimpleAttribute attr"
      "obj_get attr ''type'' \<noteq> JStr ''component''"
      "obj_get attr ''type'' \<noteq> JStr ''dynamiczone''"
      "f = addDefault createOrUpdate attr
             (preventCast (createRelationValidator createOrUpdate attr data isDraft))"
  using assms
  by (auto simp: map_ok_Ok split: if_splits list.splits)


lemma createValidateEntity_Ok:
  assumes "createValidateEntity env n createOrUpdate model data isDraftOption = Ok out"
  obtains mv where
    "createModelValidator env n createOrUpdate model data
       (if isDraftOption = JUndefined then JBool False else isDraftOption) = Ok mv"
    "cast env n False None (YRequired mv) data = Ok out"
    "check env n False [] (YRequired mv) [] out = Ok []"
proof -
  let ?d = "if isDraftOption = JUndefined then JBool False else isDraftOption"
  let ?r = "and_then (createModelValidator env n createOrUpdate model data ?d)
              (\<lambda>validator. validate env n (YRequired validator) data False)"
  from assms have "?r = Ok out"
    by (cases ?r) (auto simp: createValidateEntity_def Let_def and_then_Ok)
  then obtain mv where mv: "createModelValidator env n createOrUpdate model data ?d = Ok mv"
    and v: "validate env n (YRequired mv) data False = Ok out"
    by (auto simp: and_then_Ok)
  from v have "cast env n False None (YRequired mv) data = Ok out
      \<and> check env n False [] (YRequired mv) [] out = Ok []"
    by (auto simp: validate_def and_then_Ok split: if_splits)
  with mv that show thesis by blast
qed

section \<open>Defaults\<close>

lemma explicitDefault_addDefault:
  "explicitDefault (addDefault createOrUpdate attr v) =
     Some (case createOrUpdate of
             Creation \<Rightarrow>
               if ((obj_get attr ''type'' = JStr ''component''
                    \<and> truthy (obj_get attr ''repeatable''))
                   \<or> obj_get attr ''type'' = JStr ''dynamiczone'')
                  \<and> \<not> truthy (obj_get attr ''required'')
               then JArr [] else obj_get attr ''default''
           | Update \<Rightarrow> JUndefined)"
  by (auto simp: addDefault_def split: mode.splits)

lemma cast_addRequiredValidation:
  "cast env m orig dflt (addRequiredValidation createOrUpdate r v) x = cast env m orig dflt v x"
  by (simp add: addRequiredValidation_def split: mode.splits)

lemma cast_addMinMax:
  "cast env m orig dflt (addMinMax attr v data) x = cast env m orig dflt v x"
  by (simp add: addMinMax_def Let_def)

lemma transformed_undefined:
  "transformed env orig (Some JUndefined) base JUndefined = JUndefined"
  by (simp add: transformed_def Let_def)

lemma cast_update_attribute_undefined:
  assumes "createAttributeValidator env n Update attr data isDraft = Ok f"
  shows "cast env m False None f JUndefined = Ok JUndefined"
  using assms
proof (cases rule: createAttributeValidator_cases)
  case media
  then show ?thesis by (simp add: addDefault_def transformed_undefined)
next
  case simple
  then show ?thesis
    by (simp add: addDefault_def createSimpleAttributeValidator_def
        cast_addRequiredValidation transformed_undefined)
next
  case (repeatable m ms)
  then show ?thesis
    by (simp add: addDefault_def preventCast_def cast_addMinMax
        cast_addRequiredValidation transformed_undefined)
next
  case (singular m' ms mv)
  from singular(6) obtain fs where "mv = YObject fs"
    by (rule createModelValidator_Ok)
  with singular show ?thesis
    by (simp add: addDefault_def preventCast_def cast_addRequiredValidation
        transformed_undefined)
next
  case dz
  then show ?thesis
    by (simp add: addDefault_def preventCast_def createDzValidator_def cast_addMinMax
        cast_addRequiredValidation transformed_undefined)
next
  case relation
  then show ?thesis
    by (simp add: addDefault_def preventCast_def createRelationValidator_def
        cast_addRequiredValidation transformed_undefined)
qed

lemma cast_object_keeps_absent:
  assumes fields: "\<And>f. (k, f) \<in> set fs \<Longrightarrow> cast env m False None f JUndefined = Ok JUndefined"
    and absent: "k \<notin> fst ` set kvs"
    and ok: "cast env m False None (YRequired (YObject fs)) (JObj kvs) = Ok out"
  shows "\<exists>kvs'. out = JObj kvs' \<and> k \<notin> fst ` set kvs'"
proof -
  let ?rs = "map (\<lambda>(k, f). map_ok (Pair k) (cast env m False None f (obj_get kvs k))) fs"
  from ok obtain cs where cs: "sequence ?rs = Ok cs"
    and out: "out = JObj (filter (\<lambda>(k, c). c \<noteq> JUndefined) cs
                          @ filter (\<lambda>(k, c). k \<notin> fst ` set fs) kvs)"
    by (auto simp: transformed_def Let_def map_ok_Ok)
  have "c = JUndefined" if "(k, c) \<in> set cs" for c
  proof -
    from sequence_Ok_member [OF cs that] obtain k' f where f: "(k', f) \<in> set fs"
      and eq: "map_ok (Pair k') (cast env m False None f (obj_get kvs k')) = Ok (k, c)"
      by auto
    from eq have "k' = k" and "cast env m False None f (obj_get kvs k') = Ok c"
      by (auto simp: map_ok_Ok)
    with fields [of f] f absent show ?thesis by (simp add: obj_get_absent)
  qed
  with absent have "k \<notin> fst ` set (filter (\<lambda>(k, c). c \<noteq> JUndefined) cs
                          @ filter (\<lambda>(k, c). k \<notin> fst ` set fs) kvs)"
    by (auto simp: image_iff)
  with out show ?thesis by blast
qed

lemma update_keeps_omitted_absent:
  assumes "createValidateEntity env n Update model (JObj kvs) isDraftOption = Ok out"
    and "k \<notin> fst ` set kvs"
  shows "\<exists>kvs'. out = JObj kvs' \<and> k \<notin> fst ` set kvs'"
proof -
  from assms(1) obtain mv isDraft where
    mv: "createModelValidator env n Update model (JObj kvs) isDraft = Ok mv"
    and c: "cast env n False None (YRequired mv) (JObj kvs) = Ok out"
    by (rule createValidateEntity_Ok)
  from mv obtain n' fs where n: "n = Suc n'" and fs: "mv = YObject fs"
    and m: "mapValuesWithKey
       (\<lambda>attr attrName.
          createAttributeValidator env n' Update attr (js_get (JObj kvs) attrName) isDraft)
       (pickByWithKey
          (\<lambda>attr attrName.
             attrName \<notin> set (case model of Some m \<Rightarrow> getNonWritableAttributes env m
                              | None \<Rightarrow> []))
          (case model of
             None \<Rightarrow> []
           | Some m \<Rightarrow> (case attributes m of None \<Rightarrow> [] | Some attrs \<Rightarrow> attrs))) = Ok fs"
    by (rule createModelValidator_Ok)
  have "cast env n False None f JUndefined = Ok JUndefined" if "(k, f) \<in> set fs" for f
    using mapValuesWithKey_member [OF m that] cast_update_attribute_undefined by blast
  from cast_object_keeps_absent [OF this assms(2)] c fs show ?thesis by blast
qed

section \<open>Reading a built validator\<close>

lemma check_base:
  "check env m nl ts v p x = check env m (nl \<or> isNullable v) (testsOf v @ ts) (baseOf v) p x"
  by (induction v arbitrary: nl ts) simp_all

lemma cast_base:
  "cast env m orig dflt v x =
     cast env m (orig \<or> castPrevented v)
       (case dflt of Some d \<Rightarrow> Some d | None \<Rightarrow> explicitDefault v) (baseOf v) x"
  by (induction v arbitrary: orig dflt) (simp_all split: option.splits)

lemma observe_addRequiredValidation:
  "testsOf (addRequiredValidation createOrUpdate r v) =
     testsOf v @ (if truthy r then [case createOrUpdate of Creation \<Rightarrow> TNotNil | Update \<Rightarrow> TNotNull]
                  else [])"
  "isNullable (addRequiredValidation createOrUpdate r v) \<longleftrightarrow> isNullable v \<or> \<not> truthy r"
  "baseOf (addRequiredValidation createOrUpdate r v) = baseOf v"
  "minOf (addRequiredValidation createOrUpdate r v) = minOf v"
  "maxOf (addRequiredValidation createOrUpdate r v) = maxOf v"
  "castPrevented (addRequiredValidation createOrUpdate r v) = castPrevented v"
  by (simp_all add: addRequiredValidation_def split: mode.splits)

lemma observe_addMinMax:
  "testsOf (addMinMax attr v data) =
     testsOf v
     @ (if isInteger (obj_get attr ''min'')
           \<and> (truthy (obj_get attr ''required'') \<or> nonEmptyArray data)
        then [TMin (obj_get attr ''min'')] else [])
     @ (if isInteger (obj_get attr ''max'') then [TMax (obj_get attr ''max'')] else [])"
  "isNullable (addMinMax attr v data) = isNullable v"
  "baseOf (addMinMax attr v data) = baseOf v"
  "castPrevented (addMinMax attr v data) = castPrevented v"
  by (simp_all add: addMinMax_def Let_def)

lemma observe_addDefault:
  "testsOf (addDefault createOrUpdate attr v) = testsOf v"
  "isNullable (addDefault createOrUpdate attr v) = isNullable v"
  "baseOf (addDefault createOrUpdate attr v) = baseOf v"
  "minOf (addDefault createOrUpdate attr v) = minOf v"
  "maxOf (addDefault createOrUpdate attr v) = maxOf v"
  "castPrevented (addDefault createOrUpdate attr v) = castPrevented v"
  by (simp_all add: addDefault_def split: mode.splits)

lemma observe_preventCast:
  "testsOf (preventCast v) = testsOf v"
  "isNullable (preventCast v) = isNullable v"
  "baseOf (preventCast v) = baseOf v"
  "minOf (preventCast v) = minOf v"
  "maxOf (preventCast v) = maxOf v"
  "castPrevented (preventCast v) = True"
  by (simp_all add: preventCast_def)

lemmas observe = observe_addRequiredValidation observe_addMinMax observe_addDefault
  observe_preventCast

lemma effective_flag:
  "truthy (js_and (js_not isDraft) required) \<longleftrightarrow> \<not> truthy isDraft \<and> truthy required"
  by (simp add: js_and_def js_not_def)

lemma required_observed:
  assumes built: "createAttributeValidator env n createOrUpdate attr data isDraft = Ok v"
    and "\<not> isMedia attr"
    and "obj_get attr ''type'' \<noteq> JStr ''dynamiczone''"
    and "obj_get attr ''type'' = JStr ''component'' \<longrightarrow>
           obj_get_or attr ''repeatable'' (JBool False) \<noteq> JBool True"
  shows "(\<exists>base. (v = addDefault createOrUpdate attr
                      (addRequiredValidation createOrUpdate
                         (js_and (js_not isDraft) (obj_get attr ''required'')) base)
                 \<or> v = addDefault createOrUpdate attr
                      (preventCast
                         (addRequiredValidation createOrUpdate
                            (js_and (js_not isDraft) (obj_get attr ''required'')) base)))
                \<and> testsOf base = [] \<and> \<not> isNullable base
                \<and> (base = YMixed \<or> (\<exists>a d. base = YLeaf a d) \<or> (\<exists>e. base = YArrayOf e)
                     \<or> (\<exists>fs. base = YObject fs)))"
  using built
proof (cases rule: createAttributeValidator_cases)
  case media
  with assms show ?thesis by simp
next
  case simple
  then show ?thesis
    by (auto simp: createSimpleAttributeValidator_def)
next
  case (repeatable m ms)
  with assms show ?thesis by simp
next
  case (singular m' ms mv)
  from singular(6) obtain fs where "mv = YObject fs"
    by (rule createModelValidator_Ok)
  with singular show ?thesis
    by auto
next
  case dz
  with assms show ?thesis by simp
next
  case relation
  then show ?thesis
    by (auto simp: createRelationValidator_def)
qed

lemma required_readings:
  assumes built: "createAttributeValidator env n createOrUpdate attr data isDraft = Ok v"
    and category: "\<not> isMedia attr" "obj_get attr ''type'' \<noteq> JStr ''dynamiczone''"
      "obj_get attr ''type'' = JStr ''component'' \<longrightarrow>
         obj_get_or attr ''repeatable'' (JBool False) \<noteq> JBool True"
  shows "testsOf v =
           (if \<not> truthy isDraft \<and> truthy (obj_get attr ''required'')
            then [case createOrUpdate of Creation \<Rightarrow> TNotNil | Update \<Rightarrow> TNotNull] else [])"
    and "isNullable v \<longleftrightarrow> \<not> (\<not> truthy isDraft \<and> truthy (obj_get attr ''required''))"
    and "baseOf v = YMixed \<or> (\<exists>a d. baseOf v = YLeaf a d) \<or> (\<exists>e. baseOf v = YArrayOf e)
         \<or> (\<exists>fs. baseOf v = YObject fs)"
proof -
  from required_observed [OF built category] obtain base where
    v: "v = addDefault createOrUpdate attr
              (addRequiredValidation createOrUpdate
                 (js_and (js_not isDraft) (obj_get attr ''required'')) base)
        \<or> v = addDefault createOrUpdate attr
              (preventCast
                 (addRequiredValidation createOrUpdate
                    (js_and (js_not isDraft) (obj_get attr ''required'')) base))"
    and base: "testsOf base = []" "\<not> isNullable base"
      "base = YMixed \<or> (\<exists>a d. base = YLeaf a d) \<or> (\<exists>e. base = YArrayOf e)
         \<or> (\<exists>fs. base = YObject fs)"
    by blast
  from base(3) have self: "baseOf base = base" by auto
  from v base(1) show "testsOf v =
           (if \<not> truthy isDraft \<and> truthy (obj_get attr ''required'')
            then [case createOrUpdate of Creation \<Rightarrow> TNotNil | Update \<Rightarrow> TNotNull] else [])"
    by (auto simp: observe effective_flag)
  from v base(2)
  show "isNullable v \<longleftrightarrow> \<not> (\<not> truthy isDraft \<and> truthy (obj_get attr ''required''))"
    by (auto simp: observe effective_flag)
  from v self base(3)
  show "baseOf v = YMixed \<or> (\<exists>a d. baseOf v = YLeaf a d) \<or> (\<exists>e. baseOf v = YArrayOf e)
         \<or> (\<exists>fs. baseOf v = YObject fs)"
    by (auto simp: observe)
qed

section \<open>The checks of a node\<close>

lemma check_nil:
  assumes "isNil x"
    and "base = YMixed \<or> (\<exists>a d. base = YLeaf a d) \<or> (\<exists>e. base = YArrayOf e)
         \<or> (\<exists>fs. base = YObject fs)"
  shows "check env m nl ts base p x = Ok (ownIssues env base nl ts p x)"
  using assms by (cases x) auto

lemma ownIssues_Nil:
  "ownIssues env base nl ts p x = [] \<longleftrightarrow>
     (case base of YLeaf a d \<Rightarrow> leafIssues env a d nl x | _ \<Rightarrow> []) = []
     \<and> (x = JUndefined \<or> (x = JNull \<and> nl) \<or> typeOk base x)
     \<and> (\<forall>t \<in> set ts. \<not> testFails t x)"
  by (auto simp: ownIssues_def Let_def filter_empty_conv)

lemma ownIssues_notNil_rejects:
  "isNil x \<Longrightarrow> ownIssues env base False [TNotNil] p x \<noteq> []"
  by (simp add: ownIssues_Nil)

lemma ownIssues_notNull_rejects:
  "ownIssues env base False [TNotNull] p JNull \<noteq> []"
  by (simp add: ownIssues_Nil)

lemma ownIssues_notNull_absent:
  "ownIssues env base False [TNotNull] p JUndefined =
     map (Issue p) (case base of YLeaf a d \<Rightarrow> leafIssues env a d False JUndefined | _ \<Rightarrow> [])"
  by (simp add: ownIssues_def Let_def)

lemma check_null_container:
  assumes "(\<exists>e. baseOf v = YArrayOf e) \<or> (\<exists>fs. baseOf v = YObject fs)" "\<not> isNullable v"
  shows "\<exists>issues. check env m False [] v p JNull = Ok issues \<and> issues \<noteq> []"
proof -
  have "check env m False [] v p JNull =
      Ok (ownIssues env (baseOf v) False (testsOf v) p JNull)"
    using check_base [of env m False "[]" v p JNull] assms by auto
  moreover have "ownIssues env (baseOf v) False (testsOf v) p JNull \<noteq> []"
    using assms(1) by (auto simp: ownIssues_Nil)
  ultimately show ?thesis by simp
qed

lemma check_dzEntrySchema_object:
  "check env m False [] (dzEntrySchema env) p (JObj kvs) = Ok [] \<longleftrightarrow>
     (\<exists>s. obj_get kvs ''__component'' = JStr s \<and> s \<noteq> [] \<and> s \<in> set (components env))"
  by (cases "obj_get kvs ''__component''")
     (auto simp: dzEntrySchema_def ownIssues_Nil)

lemma check_dzEntrySchema_other:
  "x \<noteq> JUndefined \<Longrightarrow> \<forall>kvs. x \<noteq> JObj kvs \<Longrightarrow>
     \<exists>issues. check env m False [] (dzEntrySchema env) p x = Ok issues \<and> issues \<noteq> []"
  by (cases x) (auto simp: dzEntrySchema_def ownIssues_Nil)

lemma check_concat_Nil:
  "check env m nl ts (YConcat a b) p x = Ok [] \<longleftrightarrow>
     check env m nl ts a p x = Ok [] \<and> check env m nl ts b p x = Ok []"
  by (cases "check env m nl ts a p x"; cases "check env m nl ts b p x") auto

section \<open>Issues and their paths\<close>

lemma collect_member:
  "collect rs = Ok xs \<Longrightarrow> x \<in> set xs \<Longrightarrow> \<exists>ys. Ok ys \<in> set rs \<and> x \<in> set ys"
proof (induction rs arbitrary: xs)
  case Nil
  then show ?case by simp
next
  case (Cons r rs)
  from Cons.prems(1) obtain a as where *: "r = Ok a" "collect rs = Ok as" "xs = a @ as"
    by (auto simp: and_then_Ok map_ok_Ok)
  show ?case
  proof (cases "x \<in> set a")
    case True
    with * show ?thesis by auto
  next
    case False
    with Cons.prems(2) * have "x \<in> set as" by simp
    from Cons.IH [OF *(2) this] show ?thesis by auto
  qed
qed

lemma ownIssues_path: "i \<in> set (ownIssues env base nl ts p x) \<Longrightarrow> issue_path i = p"
  by (auto simp: ownIssues_def Let_def split: if_splits)

lemma check_paths:
  "check env n nl ts v p x = Ok issues \<Longrightarrow> i \<in> set issues \<Longrightarrow> \<exists>rest. issue_path i = p @ rest"
proof (induction env n nl ts v p x arbitrary: issues i rule: check.induct)
  case (13 env n nl ts e p x)
  from "13.prems"(1) obtain inner where inner:
    "(case x of JArr xs \<Rightarrow>
        collect (map (\<lambda>(i, xi). check env n False [] e (p @ [Index i]) xi) (enumerate 0 xs))
      | _ \<Rightarrow> Ok []) = Ok inner"
    and issues: "issues = ownIssues env (YArrayOf e) nl ts p x @ inner"
    by (auto simp: map_ok_Ok)
  show ?case
  proof (cases "i \<in> set inner")
    case False
    with issues "13.prems"(2) show ?thesis by (auto dest: ownIssues_path)
  next
    case True
    with inner obtain xs where x: "x = JArr xs"
      and c: "collect (map (\<lambda>(i, xi). check env n False [] e (p @ [Index i]) xi)
                        (enumerate 0 xs)) = Ok inner"
      by (cases x) auto
    from collect_member [OF c True] obtain j xj ys where
      "(j, xj) \<in> set (enumerate 0 xs)" "Ok ys = check env n False [] e (p @ [Index j]) xj"
      "i \<in> set ys"
      by auto
    from "13.IH" [OF x this(1) refl this(2) [symmetric] this(3)] show ?thesis by auto
  qed
next
  case (14 env n nl ts fs p x)
  from "14.prems"(1) obtain inner where inner:
    "(case x of JObj kvs \<Rightarrow>
        collect (map (\<lambda>(k, f). check env n False [] f (p @ [Key k]) (obj_get kvs k)) fs)
      | _ \<Rightarrow> Ok []) = Ok inner"
    and issues: "issues = ownIssues env (YObject fs) nl ts p x @ inner"
    by (auto simp: map_ok_Ok)
  show ?case
  proof (cases "i \<in> set inner")
    case False
    with issues "14.prems"(2) show ?thesis by (auto dest: ownIssues_path)
  next
    case True
    with inner obtain kvs where x: "x = JObj kvs"
      and c: "collect (map (\<lambda>(k, f). check env n False [] f (p @ [Key k]) (obj_get kvs k)) fs)
                = Ok inner"
      by (cases x) auto
    from collect_member [OF c True] obtain k f ys where
      "(k, f) \<in> set fs" "Ok ys = check env n False [] f (p @ [Key k]) (obj_get kvs k)"
      "i \<in> set ys"
      by auto
    from "14.IH" [OF x this(1) refl this(2) [symmetric] this(3)] show ?thesis by auto
  qed
next
  case (15 env n nl ts a b p x)
  from "15.prems"(1) obtain ia ib where
    *: "check env n nl ts a p x = Ok ia" "check env n nl ts b p x = Ok ib"
    "issues = remdups (ia @ ib)"
    by (auto simp: and_then_Ok map_ok_Ok)
  with "15.prems"(2) have "i \<in> set ia \<or> i \<in> set ib" by simp
  with "15.IH"(1) [OF *(1)] "15.IH"(2) [OF *(2)] show ?case by blast
next
  case (17 env n nl ts l p x)
  from "17.prems"(1) obtain v where "resolveLazy env n l x = Ok v"
    "check env n nl ts v p x = Ok issues"
    by (auto simp: and_then_Ok)
  from "17.IH" [OF this(2) "17.prems"(2)] show ?case .
qed (auto dest: ownIssues_path)

lemma check_object_paths:
  assumes "check env n nl ts (YObject fs) p x = Ok issues" "i \<in> set issues"
  shows "issue_path i = p \<or> (\<exists>k rest. k \<in> fst ` set fs \<and> issue_path i = p @ Key k # rest)"
proof -
  from assms(1) obtain inner where inner:
    "(case x of JObj kvs \<Rightarrow>
        collect (map (\<lambda>(k, f). check env n False [] f (p @ [Key k]) (obj_get kvs k)) fs)
      | _ \<Rightarrow> Ok []) = Ok inner"
    and issues: "issues = ownIssues env (YObject fs) nl ts p x @ inner"
    by (auto simp: map_ok_Ok)
  show ?thesis
  proof (cases "i \<in> set inner")
    case False
    with issues assms(2) show ?thesis by (auto dest: ownIssues_path)
  next
    case True
    with inner obtain kvs where x: "x = JObj kvs"
      and c: "collect (map (\<lambda>(k, f). check env n False [] f (p @ [Key k]) (obj_get kvs k)) fs)
                = Ok inner"
      by (cases x) auto
    from collect_member [OF c True] obtain k f ys where
      kf: "(k, f) \<in> set fs" and "Ok ys = check env n False [] f (p @ [Key k]) (obj_get kvs k)"
      "i \<in> set ys"
      by auto
    from check_paths [OF this(2) [symmetric] this(3)] obtain rest where
      "issue_path i = (p @ [Key k]) @ rest"
      by blast
    moreover from kf have "k \<in> fst ` set fs" by force
    ultimately show ?thesis by auto
  qed
qed

lemma pickByWithKey_keys:
  "k \<in> fst ` set (pickByWithKey (\<lambda>a name. name \<notin> S) kvs) \<Longrightarrow> k \<notin> S"
  by (auto simp: pickByWithKey_def)

lemma collect_count:
  "collect rs = Ok xs \<Longrightarrow> length (filter (\<lambda>r. r \<noteq> Ok []) rs) \<le> length xs"
proof (induction rs arbitrary: xs)
  case Nil
  then show ?case by simp
next
  case (Cons r rs)
  from Cons.prems obtain a as where *: "r = Ok a" "collect rs = Ok as" "xs = a @ as"
    by (auto simp: and_then_Ok map_ok_Ok)
  from Cons.IH [OF *(2)] * show ?case by (cases a) auto
qed

lemma collect_subset:
  "collect rs = Ok xs \<Longrightarrow> Ok ys \<in> set rs \<Longrightarrow> set ys \<subseteq> set xs"
proof (induction rs arbitrary: xs)
  case Nil
  then show ?case by simp
next
  case (Cons r rs)
  from Cons.prems(1) obtain a as where *: "r = Ok a" "collect rs = Ok as" "xs = a @ as"
    by (auto simp: and_then_Ok map_ok_Ok)
  show ?case
  proof (cases "Ok ys = r")
    case True
    with * show ?thesis by auto
  next
    case False
    with Cons.prems(2) have "Ok ys \<in> set rs" by simp
    from Cons.IH [OF *(2) this] * show ?thesis by auto
  qed
qed

lemma check_object_children:
  assumes "check env n nl ts (YObject fs) p (JObj kvs) = Ok issues"
  shows "length (filter (\<lambda>(k, f). check env n False [] f (p @ [Key k]) (obj_get kvs k) \<noteq> Ok [])
                   fs) \<le> length issues"
    and "(k, f) \<in> set fs \<Longrightarrow> check env n False [] f (p @ [Key k]) (obj_get kvs k) = Ok ys
           \<Longrightarrow> set ys \<subseteq> set issues"
proof -
  let ?rs = "map (\<lambda>(k, f). check env n False [] f (p @ [Key k]) (obj_get kvs k)) fs"
  from assms obtain inner where inner: "collect ?rs = Ok inner"
    and issues: "issues = ownIssues env (YObject fs) nl ts p (JObj kvs) @ inner"
    by (auto simp: map_ok_Ok)
  have "filter (\<lambda>r. r \<noteq> Ok []) ?rs
      = map (\<lambda>(k, f). check env n False [] f (p @ [Key k]) (obj_get kvs k))
          (filter (\<lambda>(k, f). check env n False [] f (p @ [Key k]) (obj_get kvs k) \<noteq> Ok []) fs)"
    by (simp add: filter_map comp_def case_prod_unfold)
  with collect_count [OF inner] issues
  show "length (filter (\<lambda>(k, f). check env n False [] f (p @ [Key k]) (obj_get kvs k) \<noteq> Ok [])
                   fs) \<le> length issues"
    by simp
  show "set ys \<subseteq> set issues"
    if "(k, f) \<in> set fs" "check env n False [] f (p @ [Key k]) (obj_get kvs k) = Ok ys"
  proof -
    from that have "Ok ys \<in> set ?rs" by force
    from collect_subset [OF inner this] issues show ?thesis by auto
  qed
qed

lemma createValidateEntity_throws:
  assumes "createValidateEntity env n createOrUpdate model data isDraftOption = Throw e"
  shows "(\<exists>errors. e = BadRequest ''ValidationError'' errors)
         \<or> (\<exists>e'. formatYupErrors env e' = Throw e)"
proof -
  let ?r = "and_then (createModelValidator env n createOrUpdate model data
                        (if isDraftOption = JUndefined then JBool False else isDraftOption))
              (\<lambda>validator. validate env n (YRequired validator) data False)"
  show ?thesis
  proof (cases ?r)
    case (Ok a)
    with assms show ?thesis by (simp add: createValidateEntity_def Let_def)
  next
    case (Throw e')
    with assms have "and_then (formatYupErrors env e')
        (\<lambda>errors. Throw (BadRequest ''ValidationError'' errors)) = (Throw e :: jsval outcome)"
      by (simp add: createValidateEntity_def Let_def)
    then show ?thesis by (cases "formatYupErrors env e'") auto
  next
    case Diverge
    with assms show ?thesis by (simp add: createValidateEntity_def Let_def)
  qed
qed

section \<open>The sample schemas\<close>

lemma titleAttr_category:
  "\<not> isMedia titleAttr" "obj_get titleAttr ''type'' \<noteq> JStr ''dynamiczone''"
  "obj_get titleAttr ''type'' = JStr ''component'' \<longrightarrow>
     obj_get_or titleAttr ''repeatable'' (JBool False) \<noteq> JBool True"
  by (simp_all add: isMedia_def titleAttr_def obj_get_def js_or_def)

lemma tags_field:
  assumes "createAttributeValidator env n Creation tagsAttr (JArr []) isDraft = Ok f"
  shows "\<exists>model. f = YDefault (JArr [])
                   (YTransformOriginal
                      (YNotNil (YArrayOf (YLazy (ComponentItem Creation model isDraft)))))"
  using assms
proof (cases rule: createAttributeValidator_cases)
  case media
  then show ?thesis by (simp add: isMedia_def tagsAttr_def obj_get_def js_or_def)
next
  case simple
  then show ?thesis by (simp add: isSimpleAttribute_def tagsAttr_def obj_get_def)
next
  case (repeatable m ms)
  then show ?thesis
    by (simp add: addDefault_def preventCast_def addMinMax_def addRequiredValidation_def
        tagsAttr_def obj_get_def)
next
  case (singular m ms mv)
  then show ?thesis by (simp add: tagsAttr_def obj_get_or_def obj_get_def)
next
  case dz
  then show ?thesis by (simp add: tagsAttr_def obj_get_def)
next
  case relation
  then show ?thesis by (simp add: tagsAttr_def obj_get_def)
qed

lemma target_field:
  assumes "createAttributeValidator env n Creation targetAttr JUndefined isDraft = Ok f"
  shows "\<exists>fs. f = YDefault JUndefined (YTransformOriginal (YNullable (YObject fs)))"
  using assms
proof (cases rule: createAttributeValidator_cases)
  case media
  then show ?thesis by (simp add: isMedia_def targetAttr_def obj_get_def js_or_def)
next
  case simple
  then show ?thesis by (simp add: isSimpleAttribute_def targetAttr_def obj_get_def)
next
  case (repeatable m ms)
  then show ?thesis by (simp add: targetAttr_def obj_get_or_def obj_get_def)
next
  case (singular m ms mv)
  from singular(6) obtain fs where "mv = YObject fs"
    by (rule createModelValidator_Ok)
  with singular(7) show ?thesis
    by (simp add: addDefault_def preventCast_def addRequiredValidation_def
        targetAttr_def obj_get_def js_and_def js_not_def)
next
  case dz
  then show ?thesis by (simp add: targetAttr_def obj_get_def)
next
  case relation
  then show ?thesis by (simp add: targetAttr_def obj_get_def)
qed

lemma empty_tags_validate:
  assumes built: "createModelValidator env n Creation (Some tagsSchema) emptyTags isDraft = Ok mv"
  shows "validate env n (YRequired mv) emptyTags False = Ok emptyTags"
proof -
  let ?nw = "set (getNonWritableAttributes env tagsSchema)"
  from built obtain n' fs where mv: "mv = YObject fs"
    and m: "mapValuesWithKey
       (\<lambda>attr attrName.
          createAttributeValidator env n' Creation attr (js_get emptyTags attrName) isDraft)
       (pickByWithKey (\<lambda>attr attrName. attrName \<notin> ?nw)
          [(''tags'', tagsAttr), (''target'', targetAttr)]) = Ok fs"
    by (rule createModelValidator_Ok) (simp add: tagsSchema_def)
  have tags: "js_get emptyTags ''tags'' = JArr []" and target: "js_get emptyTags ''target'' = JUndefined"
    by (simp_all add: emptyTags_def obj_get_def)
  consider (both) ft fg where "fs = [(''tags'', ft), (''target'', fg)]"
      "createAttributeValidator env n' Creation tagsAttr (JArr []) isDraft = Ok ft"
      "createAttributeValidator env n' Creation targetAttr JUndefined isDraft = Ok fg"
    | (tags_only) ft where "fs = [(''tags'', ft)]"
      "createAttributeValidator env n' Creation tagsAttr (JArr []) isDraft = Ok ft"
    | (target_only) fg where "fs = [(''target'', fg)]"
      "createAttributeValidator env n' Creation targetAttr JUndefined isDraft = Ok fg"
    | (none) "fs = []"
    using m unfolding pickByWithKey_def tags target
    by (cases "''tags'' \<in> ?nw"; cases "''target'' \<in> ?nw")
       (auto simp: and_then_Ok map_ok_Ok tags target simp del: createAttributeValidator.simps)
  then show ?thesis
  proof cases
    case both
    from tags_field [OF both(2)] target_field [OF both(3)] both(1) mv show ?thesis
      by (auto simp: validate_def emptyTags_def transformed_def Let_def obj_get_def
          ownIssues_def)
  next
    case tags_only
    from tags_field [OF tags_only(2)] tags_only(1) mv show ?thesis
      by (auto simp: validate_def emptyTags_def transformed_def Let_def obj_get_def
          ownIssues_def)
  next
    case target_only
    from target_field [OF target_only(2)] target_only(1) mv show ?thesis
      by (auto simp: validate_def emptyTags_def transformed_def Let_def obj_get_def
          ownIssues_def)
  next
    case none
    with mv show ?thesis
      by (auto simp: validate_def emptyTags_def transformed_def Let_def obj_get_def
          ownIssues_def)
  qed
qed

section \<open>What the built validators check\<close>

text \<open>
  The readings of the claims below, carried to the validation engine: what a run of the
  engine does with the nodes the module builds.
\<close>

text \<open>
  Where the required modifier applies with a truthy flag, creation mode rejects an
  \<^verbatim>\<open>undefined\<close> value at the node, and update mode rejects \<^verbatim>\<open>null\<close> and adds no
  issue of its own for an \<^verbatim>\<open>undefined\<close> value.
\<close>

corollary required_checks:
  assumes built: "createAttributeValidator env n createOrUpdate attr data isDraft = Ok v"
    and category: "\<not> isMedia attr" "obj_get attr ''type'' \<noteq> JStr ''dynamiczone''"
      "obj_get attr ''type'' = JStr ''component'' \<longrightarrow>
         obj_get_or attr ''repeatable'' (JBool False) \<noteq> JBool True"
    and flag: "\<not> truthy isDraft" "truthy (obj_get attr ''required'')"
  shows "(\<forall>x. testFails TNotNil x \<longleftrightarrow> x = JUndefined \<or> x = JNull)
       \<and> (\<forall>x. testFails TNotNull x \<longleftrightarrow> x = JNull)
       \<and> (createOrUpdate = Creation
            \<longrightarrow> (\<exists>issues. check env m False [] v p JUndefined = Ok issues \<and> issues \<noteq> []))
       \<and> (createOrUpdate = Update
            \<longrightarrow> (\<exists>issues. check env m False [] v p JNull = Ok issues \<and> issues \<noteq> [])
                \<and> check env m False [] v p JUndefined =
                    Ok (map (Issue p)
                          (case baseOf v of
                             YLeaf a d \<Rightarrow> leafIssues env a d False JUndefined
                           | _ \<Rightarrow> [])))"
proof -
  from required_readings [OF built category] flag
  have tests: "testsOf v = [case createOrUpdate of Creation \<Rightarrow> TNotNil | Update \<Rightarrow> TNotNull]"
    and nullable: "\<not> isNullable v"
    and base: "baseOf v = YMixed \<or> (\<exists>a d. baseOf v = YLeaf a d) \<or> (\<exists>e. baseOf v = YArrayOf e)
         \<or> (\<exists>fs. baseOf v = YObject fs)"
    by auto
  have nil: "check env m False [] v p x = Ok (ownIssues env (baseOf v) (isNullable v) (testsOf v) p x)"
    if "isNil x" for x
    using check_base [of env m False "[]" v p x] check_nil [OF that base] by simp
  have nils: "\<forall>x. testFails TNotNil x \<longleftrightarrow> x = JUndefined \<or> x = JNull"
  proof
    fix x show "testFails TNotNil x \<longleftrightarrow> x = JUndefined \<or> x = JNull" by (cases x) simp_all
  qed
  have creation: "\<exists>issues. check env m False [] v p JUndefined = Ok issues \<and> issues \<noteq> []"
    if "createOrUpdate = Creation"
    using that nil [of JUndefined] tests nullable by (simp add: ownIssues_notNil_rejects)
  have update1: "\<exists>issues. check env m False [] v p JNull = Ok issues \<and> issues \<noteq> []"
    if "createOrUpdate = Update"
    using that nil [of JNull] tests nullable by (simp add: ownIssues_notNull_rejects)
  have update2: "check env m False [] v p JUndefined =
      Ok (map (Issue p)
            (case baseOf v of YLeaf a d \<Rightarrow> leafIssues env a d False JUndefined | _ \<Rightarrow> []))"
    if "createOrUpdate = Update"
    using that nil [of JUndefined] tests nullable by (simp add: ownIssues_notNull_absent)
  from nils creation update1 update2 show ?thesis by simp
qed

text \<open>
  A validator that is an array or an object and is not marked nullable rejects
  \<^verbatim>\<open>null\<close>: so do the container of a repeatable component or dynamic zone and each
  item of a repeatable component.
\<close>

corollary sequence_rejects_null:
  assumes built: "createAttributeValidator env n createOrUpdate attr data isDraft = Ok v"
    and not_media: "\<not> isMedia attr"
    and category:
      "(obj_get attr ''type'' = JStr ''component''
          \<and> obj_get_or attr ''repeatable'' (JBool False) = JBool True)
       \<or> obj_get attr ''type'' = JStr ''dynamiczone''"
  shows "(\<exists>issues. check env m False [] v p JNull = Ok issues \<and> issues \<noteq> [])
     \<and> (\<forall>model item e.
           resolveLazy env k (ComponentItem createOrUpdate model isDraft) item = Ok e \<longrightarrow>
             (\<exists>issues. check env m False [] e q JNull = Ok issues \<and> issues \<noteq> []))"
proof -
  have "(\<exists>e. baseOf v = YArrayOf e) \<and> \<not> isNullable v"
    using built
  proof (cases rule: createAttributeValidator_cases)
    case media
    with not_media show ?thesis by simp
  next
    case simple
    with category show ?thesis by (auto simp: isSimpleAttribute_def)
  next
    case (repeatable model others)
    then show ?thesis by (simp add: observe)
  next
    case (singular model others mv)
    with category show ?thesis by simp
  next
    case dz
    then show ?thesis by (simp add: observe createDzValidator_def)
  next
    case relation
    with category show ?thesis by simp
  qed
  then have container: "\<exists>issues. check env m False [] v p JNull = Ok issues \<and> issues \<noteq> []"
    using check_null_container [of v] by blast
  have items: "\<exists>issues. check env m False [] e q JNull = Ok issues \<and> issues \<noteq> []"
    if "resolveLazy env k (ComponentItem createOrUpdate model isDraft) item = Ok e"
    for model item e
  proof -
    from that obtain mv where e: "e = YNotNull mv"
      and "createModelValidator env k createOrUpdate (Some model) item isDraft = Ok mv"
      by (auto simp: map_ok_Ok)
    then obtain fs where mv: "mv = YObject fs"
      by (auto elim: createModelValidator_Ok)
    with e have "baseOf e = YObject fs" "\<not> isNullable e" by simp_all
    with check_null_container [of e env m q] show ?thesis by blast
  qed
  from container items show ?thesis by blast
qed

text \<open>
  An object passes the entry schema of a dynamic zone exactly when its \<^verbatim>\<open>__component\<close>
  is a non-empty string among the keys of \<^verbatim>\<open>strapi.components\<close>; any other value but
  \<^verbatim>\<open>undefined\<close> fails it; and an entry passes the concatenation of the entry schema
  with a model validator exactly when it passes both.
\<close>

corollary dz_entry_checks:
  "(\<forall>kvs. check env m False [] (dzEntrySchema env) p (JObj kvs) = Ok [] \<longleftrightarrow>
        (\<exists>s. obj_get kvs ''__component'' = JStr s \<and> s \<noteq> [] \<and> s \<in> set (components env)))
   \<and> (x \<noteq> JUndefined \<and> (\<forall>kvs. x \<noteq> JObj kvs) \<longrightarrow>
        (\<exists>issues. check env m False [] (dzEntrySchema env) p x = Ok issues \<and> issues \<noteq> []))
   \<and> (\<forall>mv. check env m False [] (YConcat (dzEntrySchema env) mv) p x = Ok [] \<longleftrightarrow>
        check env m False [] (dzEntrySchema env) p x = Ok []
        \<and> check env m False [] mv p x = Ok [])"
  using check_dzEntrySchema_object check_dzEntrySchema_other check_concat_Nil by blast

text \<open>The node of a media attribute accepts every value.\<close>

corollary media_accepts_everything:
  "check env m False [] (addDefault createOrUpdate attr YMixed) p x = Ok []"
  using check_base [of env m False "[]" "addDefault createOrUpdate attr YMixed" p x]
  by (simp add: observe ownIssues_Nil)

text \<open>
  An error thrown while validating, as by a lazily resolved component whose model is
  not found, is handed to the formatter like one thrown while building.
\<close>

corollary thrown_while_validating_is_formatted:
  assumes "createModelValidator env n createOrUpdate model entity
             (if isDraftOption = JUndefined then JBool False else isDraftOption) = Ok mv"
    and "validate env n (YRequired mv) entity False = Throw e"
  shows "createValidateEntity env n createOrUpdate model entity isDraftOption =
           and_then (formatYupErrors env e)
             (\<lambda>errors. Throw (BadRequest ''ValidationError'' errors))"
  using assms by (simp add: createValidateEntity_def Let_def)

section \<open>Claims\<close>

text \<open>
  C1. Default injection depends on the mode. Whatever the attribute, a validator built
  in creation mode has the descriptor's \<^verbatim>\<open>default\<close> as its default, except that a
  component with a truthy \<^verbatim>\<open>repeatable\<close> or a dynamic zone, when \<^verbatim>\<open>required\<close> is
  falsy, has the empty array; a validator built in update mode has the default
  \<^verbatim>\<open>undefined\<close>. Hence an update that validates returns a record in which every key
  the input omitted is still absent.
\<close>

theorem default_injection_by_mode:
  "(createAttributeValidator env n createOrUpdate attr data isDraft = Ok v \<longrightarrow>
      (\<exists>inner. v = addDefault createOrUpdate attr inner
          \<and> v = YDefault
                  (case createOrUpdate of
                     Creation \<Rightarrow>
                       if ((obj_get attr ''type'' = JStr ''component''
                            \<and> truthy (obj_get attr ''repeatable''))
                           \<or> obj_get attr ''type'' = JStr ''dynamiczone'')
                          \<and> \<not> truthy (obj_get attr ''required'')
                       then JArr [] else obj_get attr ''default''
                   | Update \<Rightarrow> JUndefined)
                  inner)
      \<and> explicitDefault v =
        Some (case createOrUpdate of
                Creation \<Rightarrow>
                  if ((obj_get attr ''type'' = JStr ''component''
                       \<and> truthy (obj_get attr ''repeatable''))
                      \<or> obj_get attr ''type'' = JStr ''dynamiczone'')
                     \<and> \<not> truthy (obj_get attr ''required'')
                  then JArr [] else obj_get attr ''default''
              | Update \<Rightarrow> JUndefined))
   \<and> (validateEntityUpdate env n model (JObj kvs) isDraftOption = Ok out \<longrightarrow>
        k \<notin> fst ` set kvs \<longrightarrow> (\<exists>kvs'. out = JObj kvs' \<and> k \<notin> fst ` set kvs'))"
proof (intro conjI impI)
  assume "createAttributeValidator env n createOrUpdate attr data isDraft = Ok v"
  then obtain v' where v: "v = addDefault createOrUpdate attr v'"
    by (auto simp: map_ok_Ok)
  then show "\<exists>inner. v = addDefault createOrUpdate attr inner
          \<and> v = YDefault
                  (case createOrUpdate of
                     Creation \<Rightarrow>
                       if ((obj_get attr ''type'' = JStr ''component''
                            \<and> truthy (obj_get attr ''repeatable''))
                           \<or> obj_get attr ''type'' = JStr ''dynamiczone'')
                          \<and> \<not> truthy (obj_get attr ''required'')
                       then JArr [] else obj_get attr ''default''
                   | Update \<Rightarrow> JUndefined)
                  inner"
    by (auto simp: addDefault_def split: mode.splits)
  from v show "explicitDefault v =
        Some (case createOrUpdate of
                Creation \<Rightarrow>
                  if ((obj_get attr ''type'' = JStr ''component''
                       \<and> truthy (obj_get attr ''repeatable''))
                      \<or> obj_get attr ''type'' = JStr ''dynamiczone'')
                     \<and> \<not> truthy (obj_get attr ''required'')
                  then JArr [] else obj_get attr ''default''
              | Update \<Rightarrow> JUndefined)"
    by (simp only: explicitDefault_addDefault)
next
  assume "validateEntityUpdate env n model (JObj kvs) isDraftOption = Ok out"
    and "k \<notin> fst ` set kvs"
  then show "\<exists>kvs'. out = JObj kvs' \<and> k \<notin> fst ` set kvs'"
    using update_keeps_omitted_absent by (simp add: validateEntityUpdate_def)
qed

theorem default_injection_by_mode_witness:
  "explicitDefault
     (YDefault (JArr [])
        (YTransformOriginal
           (YNotNil (YArrayOf (YLazy (ComponentItem Creation tagModel (JBool False)))))))
     = Some (JArr [])
   \<and> validateEntityUpdate sampleEnv 2 (Some articleSchema) (JObj [(''title'', JStr ''t'')])
         JUndefined = Ok (JObj [(''title'', JStr ''t'')])
   \<and> (\<exists>kvs'. JObj [(''title'', JStr ''t'')] = JObj kvs' \<and> ''slug'' \<notin> fst ` set kvs')"
proof -
  have built: "createAttributeValidator sampleEnv 2 Creation tagsAttr (JArr []) (JBool False) =
      Ok (YDefault (JArr [])
            (YTransformOriginal
               (YNotNil (YArrayOf (YLazy (ComponentItem Creation tagModel (JBool False)))))))"
    by code_simp
  have updated: "validateEntityUpdate sampleEnv 2 (Some articleSchema)
      (JObj [(''title'', JStr ''t'')]) JUndefined = Ok (JObj [(''title'', JStr ''t'')])"
    by code_simp
  have omitted: "''slug'' \<notin> fst ` set [(''title'', JStr ''t'')]"
    by simp
  from default_injection_by_mode
    [where env = sampleEnv and n = 2 and createOrUpdate = Creation and attr = tagsAttr
       and data = "JArr []" and isDraft = "JBool False" and model = "Some articleSchema"
       and kvs = "[(''title'', JStr ''t'')]" and isDraftOption = JUndefined and k = "''slug''"]
    built updated omitted
  show ?thesis by simp
qed

text \<open>
  C2. Required enforcement. For an attribute that is not a media reference, not a
  dynamic zone and not a component with \<^verbatim>\<open>repeatable === true\<close> (that is, a simple
  attribute, a singular component or a relation), the required modifier is applied with
  the flag \<^verbatim>\<open>!isDraft && attr.required\<close>, which is truthy exactly when \<^verbatim>\<open>isDraft\<close>
  is falsy and \<^verbatim>\<open>required\<close> is truthy, so a truthy \<^verbatim>\<open>isDraft\<close> suppresses it. When
  the flag is truthy the node gets the one test \<^verbatim>\<open>notNil\<close> in creation mode and
  \<^verbatim>\<open>notNull\<close> in update mode, and is not marked nullable; when it is falsy the node
  gets no test and is marked nullable. What is built is given in full: the leaf or
  \<^verbatim>\<open>mixed()\<close> schema of a simple attribute and the schema of a relation, whatever the
  fuel, and for a singular component the validator of its model, whenever that one is
  built, each under the required modifier.
\<close>

theorem required_enforcement:
  assumes category: "\<not> isMedia attr" "obj_get attr ''type'' \<noteq> JStr ''dynamiczone''"
      "obj_get attr ''type'' = JStr ''component'' \<longrightarrow>
         obj_get_or attr ''repeatable'' (JBool False) \<noteq> JBool True"
  shows "(createAttributeValidator env n createOrUpdate attr data isDraft = Ok v \<longrightarrow>
          (\<exists>base. v = addDefault createOrUpdate attr
                      (addRequiredValidation createOrUpdate
                         (js_and (js_not isDraft) (obj_get attr ''required'')) base)
                \<or> v = addDefault createOrUpdate attr
                      (preventCast
                         (addRequiredValidation createOrUpdate
                            (js_and (js_not isDraft) (obj_get attr ''required'')) base)))
          \<and> testsOf v =
              (if \<not> truthy isDraft \<and> truthy (obj_get attr ''required'')
               then [case createOrUpdate of Creation \<Rightarrow> TNotNil | Update \<Rightarrow> TNotNull] else [])
          \<and> (isNullable v \<longleftrightarrow> \<not> (\<not> truthy isDraft \<and> truthy (obj_get attr ''required''))))
       \<and> (\<forall>base. addRequiredValidation createOrUpdate
                     (js_and (js_not isDraft) (obj_get attr ''required'')) base =
                   (if \<not> truthy isDraft \<and> truthy (obj_get attr ''required'')
                    then (case createOrUpdate of
                            Creation \<Rightarrow> YNotNil base | Update \<Rightarrow> YNotNull base)
                    else YNullable base))
       \<and> (obj_get attr ''type'' \<noteq> JStr ''component'' \<longrightarrow>
            (\<exists>v'. createAttributeValidator env n createOrUpdate attr data isDraft = Ok v'))
       \<and> createAttributeValidator env n createOrUpdate attr data isDraft =
           (if isSimpleAttribute attr then
              Ok (addDefault createOrUpdate attr
                    (addRequiredValidation createOrUpdate
                       (js_and (js_not isDraft) (obj_get attr ''required''))
                       (if validators env (obj_get attr ''type'') then YLeaf attr isDraft
                        else YMixed)))
            else if obj_get attr ''type'' = JStr ''component'' then
              (case getModelsByAttribute env attr of
                 [] \<Rightarrow> Throw (Error ''Validation failed: Model not found'')
               | model # others \<Rightarrow>
                   map_ok
                     (\<lambda>mv. addDefault createOrUpdate attr
                             (preventCast
                                (addRequiredValidation createOrUpdate
                                   (js_and (js_not isDraft) (obj_get attr ''required'')) mv)))
                     (createModelValidator env n createOrUpdate (Some model) data isDraft))
            else
              Ok (addDefault createOrUpdate attr
                    (preventCast
                       (addRequiredValidation createOrUpdate
                          (js_and (js_not isDraft) (obj_get attr ''required''))
                          (if isArray data then YArrayOf YMixed else YMixed)))))"
proof -
  have shape: "(\<exists>base. v = addDefault createOrUpdate attr
                      (addRequiredValidation createOrUpdate
                         (js_and (js_not isDraft) (obj_get attr ''required'')) base)
                \<or> v = addDefault createOrUpdate attr
                      (preventCast
                         (addRequiredValidation createOrUpdate
                            (js_and (js_not isDraft) (obj_get attr ''required'')) base)))
          \<and> testsOf v =
              (if \<not> truthy isDraft \<and> truthy (obj_get attr ''required'')
               then [case createOrUpdate of Creation \<Rightarrow> TNotNil | Update \<Rightarrow> TNotNull] else [])
          \<and> (isNullable v \<longleftrightarrow> \<not> (\<not> truthy isDraft \<and> truthy (obj_get attr ''required'')))"
    if built: "createAttributeValidator env n createOrUpdate attr data isDraft = Ok v"
  proof -
    from required_observed [OF built category]
    have "\<exists>base. v = addDefault createOrUpdate attr
                      (addRequiredValidation createOrUpdate
                         (js_and (js_not isDraft) (obj_get attr ''required'')) base)
                \<or> v = addDefault createOrUpdate attr
                      (preventCast
                         (addRequiredValidation createOrUpdate
                            (js_and (js_not isDraft) (obj_get attr ''required'')) base))"
      by blast
    with required_readings(1,2) [OF built category] show ?thesis by blast
  qed
  have modifier: "\<forall>base. addRequiredValidation createOrUpdate
                     (js_and (js_not isDraft) (obj_get attr ''required'')) base =
                   (if \<not> truthy isDraft \<and> truthy (obj_get attr ''required'')
                    then (case createOrUpdate of
                            Creation \<Rightarrow> YNotNil base | Update \<Rightarrow> YNotNull base)
                    else YNullable base)"
    by (simp add: addRequiredValidation_def effective_flag)
  have returns: "\<exists>v'. createAttributeValidator env n createOrUpdate attr data isDraft = Ok v'"
    if "obj_get attr ''type'' \<noteq> JStr ''component''"
    using that category by simp
  have built: "createAttributeValidator env n createOrUpdate attr data isDraft =
           (if isSimpleAttribute attr then
              Ok (addDefault createOrUpdate attr
                    (addRequiredValidation createOrUpdate
                       (js_and (js_not isDraft) (obj_get attr ''required''))
                       (if validators env (obj_get attr ''type'') then YLeaf attr isDraft
                        else YMixed)))
            else if obj_get attr ''type'' = JStr ''component'' then
              (case getModelsByAttribute env attr of
                 [] \<Rightarrow> Throw (Error ''Validation failed: Model not found'')
               | model # others \<Rightarrow>
                   map_ok
                     (\<lambda>mv. addDefault createOrUpdate attr
                             (preventCast
                                (addRequiredValidation createOrUpdate
                                   (js_and (js_not isDraft) (obj_get attr ''required'')) mv)))
                     (createModelValidator env n createOrUpdate (Some model) data isDraft))
            else
              Ok (addDefault createOrUpdate attr
                    (preventCast
                       (addRequiredValidation createOrUpdate
                          (js_and (js_not isDraft) (obj_get attr ''required''))
                          (if isArray data then YArrayOf YMixed else YMixed)))))"
  proof -
    have fuse: "map_ok f (map_ok g r) = map_ok (\<lambda>x. f (g x)) r"
      for f :: "validator \<Rightarrow> validator" and g :: "validator \<Rightarrow> validator" and r
      by (cases r) simp_all
    from category show ?thesis
      by (auto simp: createSimpleAttributeValidator_def createRelationValidator_def fuse
          split: list.splits)
  qed
  from shape modifier returns built show ?thesis by blast
qed

theorem required_enforcement_witness:
  "testsOf (YDefault JUndefined (YNotNil (YLeaf titleAttr (JBool False)))) = [TNotNil]
   \<and> \<not> isNullable (YDefault JUndefined (YNotNil (YLeaf titleAttr (JBool False))))
   \<and> testsOf (YDefault JUndefined (YNotNull (YLeaf titleAttr (JBool False)))) = [TNotNull]
   \<and> \<not> isNullable (YDefault JUndefined (YNotNull (YLeaf titleAttr (JBool False))))
   \<and> testsOf (YDefault JUndefined (YNullable (YLeaf titleAttr (JBool True)))) = []
   \<and> isNullable (YDefault JUndefined (YNullable (YLeaf titleAttr (JBool True))))
   \<and> createAttributeValidator sampleEnv 1 Creation authorAttr JUndefined (JBool False) =
       Ok (YDefault JUndefined
             (YTransformOriginal
                (YNotNil
                   (YObject [(''name'', YDefault JUndefined
                                          (YNotNil (YLeaf [(''type'', JStr ''string''),
                                                           (''required'', JBool True)]
                                                      (JBool False))))]))))
   \<and> createAttributeValidator sampleEnv 1 Update authorAttr JUndefined (JBool True) =
       Ok (YDefault JUndefined
             (YTransformOriginal
                (YNullable
                   (YObject [(''name'', YDefault JUndefined
                                          (YNullable (YLeaf [(''type'', JStr ''string''),
                                                             (''required'', JBool True)]
                                                        (JBool True))))]))))"
proof -
  have creation: "createAttributeValidator sampleEnv 1 Creation titleAttr JUndefined (JBool False)
      = Ok (YDefault JUndefined (YNotNil (YLeaf titleAttr (JBool False))))"
    by code_simp
  have update: "createAttributeValidator sampleEnv 1 Update titleAttr JUndefined (JBool False)
      = Ok (YDefault JUndefined (YNotNull (YLeaf titleAttr (JBool False))))"
    by code_simp
  have draft: "createAttributeValidator sampleEnv 1 Creation titleAttr JUndefined (JBool True)
      = Ok (YDefault JUndefined (YNullable (YLeaf titleAttr (JBool True))))"
    by code_simp
  have required: "truthy (obj_get titleAttr ''required'')"
    by (simp add: titleAttr_def obj_get_def)
  have author: "\<not> isMedia authorAttr" "obj_get authorAttr ''type'' \<noteq> JStr ''dynamiczone''"
    "obj_get authorAttr ''type'' = JStr ''component'' \<longrightarrow>
       obj_get_or authorAttr ''repeatable'' (JBool False) \<noteq> JBool True"
    by (simp_all add: isMedia_def authorAttr_def obj_get_def obj_get_or_def js_or_def)
  have singular: "\<not> isSimpleAttribute authorAttr" "obj_get authorAttr ''type'' = JStr ''component''"
    "getModelsByAttribute sampleEnv authorAttr = [tagModel]"
    "truthy (obj_get authorAttr ''required'')"
    by (simp_all add: isSimpleAttribute_def authorAttr_def obj_get_def sampleEnv_def)
  have model1: "createModelValidator sampleEnv 1 Creation (Some tagModel) JUndefined (JBool False) =
      Ok (YObject [(''name'', YDefault JUndefined
                                (YNotNil (YLeaf [(''type'', JStr ''string''),
                                                 (''required'', JBool True)]
                                            (JBool False))))])"
    by code_simp
  have model2: "createModelValidator sampleEnv 1 Update (Some tagModel) JUndefined (JBool True) =
      Ok (YObject [(''name'', YDefault JUndefined
                                (YNullable (YLeaf [(''type'', JStr ''string''),
                                                   (''required'', JBool True)]
                                              (JBool True))))])"
    by code_simp
  have node1: "addDefault Creation authorAttr
                 (preventCast
                    (addRequiredValidation Creation
                       (js_and (js_not (JBool False)) (obj_get authorAttr ''required'')) mv)) =
               YDefault JUndefined (YTransformOriginal (YNotNil mv))" for mv
    by (simp add: addDefault_def preventCast_def addRequiredValidation_def
        js_and_def js_not_def authorAttr_def obj_get_def)
  have node2: "addDefault Update authorAttr
                 (preventCast
                    (addRequiredValidation Update
                       (js_and (js_not (JBool True)) (obj_get authorAttr ''required'')) mv)) =
               YDefault JUndefined (YTransformOriginal (YNullable mv))" for mv
    by (simp add: addDefault_def preventCast_def addRequiredValidation_def
        js_and_def js_not_def authorAttr_def obj_get_def)
  note simple1 = required_enforcement [OF titleAttr_category,
      of sampleEnv 1 Creation JUndefined "JBool False"
        "YDefault JUndefined (YNotNil (YLeaf titleAttr (JBool False)))"]
  note simple2 = required_enforcement [OF titleAttr_category,
      of sampleEnv 1 Update JUndefined "JBool False"
        "YDefault JUndefined (YNotNull (YLeaf titleAttr (JBool False)))"]
  note simple3 = required_enforcement [OF titleAttr_category,
      of sampleEnv 1 Creation JUndefined "JBool True"
        "YDefault JUndefined (YNullable (YLeaf titleAttr (JBool True)))"]
  from simple1 simple2 simple3 creation update draft required
  have simple: "testsOf (YDefault JUndefined (YNotNil (YLeaf titleAttr (JBool False)))) = [TNotNil]
   \<and> \<not> isNullable (YDefault JUndefined (YNotNil (YLeaf titleAttr (JBool False))))
   \<and> testsOf (YDefault JUndefined (YNotNull (YLeaf titleAttr (JBool False)))) = [TNotNull]
   \<and> \<not> isNullable (YDefault JUndefined (YNotNull (YLeaf titleAttr (JBool False))))
   \<and> testsOf (YDefault JUndefined (YNullable (YLeaf titleAttr (JBool True)))) = []
   \<and> isNullable (YDefault JUndefined (YNullable (YLeaf titleAttr (JBool True))))"
    by simp
  from required_enforcement [OF author, of sampleEnv 1 Creation JUndefined "JBool False" YMixed,
      THEN conjunct2, THEN conjunct2, THEN conjunct2]
  have "createAttributeValidator sampleEnv 1 Creation authorAttr JUndefined (JBool False) =
      map_ok
        (\<lambda>mv. addDefault Creation authorAttr
                (preventCast
                   (addRequiredValidation Creation
                      (js_and (js_not (JBool False)) (obj_get authorAttr ''required'')) mv)))
        (createModelValidator sampleEnv 1 Creation (Some tagModel) JUndefined (JBool False))"
    by (simp only: singular if_False if_True list.case simp_thms)
  then have component1:
    "createAttributeValidator sampleEnv 1 Creation authorAttr JUndefined (JBool False) =
       Ok (YDefault JUndefined
             (YTransformOriginal
                (YNotNil
                   (YObject [(''name'', YDefault JUndefined
                                          (YNotNil (YLeaf [(''type'', JStr ''string''),
                                                           (''required'', JBool True)]
                                                      (JBool False))))]))))"
    by (simp only: model1 map_ok.simps node1)
  from required_enforcement [OF author, of sampleEnv 1 Update JUndefined "JBool True" YMixed,
      THEN conjunct2, THEN conjunct2, THEN conjunct2]
  have "createAttributeValidator sampleEnv 1 Update authorAttr JUndefined (JBool True) =
      map_ok
        (\<lambda>mv. addDefault Update authorAttr
                (preventCast
                   (addRequiredValidation Update
                      (js_and (js_not (JBool True)) (obj_get authorAttr ''required'')) mv)))
        (createModelValidator sampleEnv 1 Update (Some tagModel) JUndefined (JBool True))"
    by (simp only: singular if_False if_True list.case simp_thms)
  then have component2:
    "createAttributeValidator sampleEnv 1 Update authorAttr JUndefined (JBool True) =
       Ok (YDefault JUndefined
             (YTransformOriginal
                (YNullable
                   (YObject [(''name'', YDefault JUndefined
                                          (YNullable (YLeaf [(''type'', JStr ''string''),
                                                             (''required'', JBool True)]
                                                        (JBool True))))]))))"
    by (simp only: model2 map_ok.simps node2)
  from simple component1 component2 show ?thesis by simp
qed

text \<open>
  C3. Error aggregation at the entry point. The validator that is run is the model
  validator with \<^verbatim>\<open>required()\<close> added, so the record itself must be present: an
  \<^verbatim>\<open>undefined\<close> record fails with the one issue \<^verbatim>\<open>required\<close> at the root, and a
  \<^verbatim>\<open>null\<close> record that the coercion leaves \<^verbatim>\<open>null\<close> fails with a type error there;
  neither call returns. The validator is run with \<^verbatim>\<open>abortEarly: false\<close>, so the error
  it throws carries every issue found and not only the first; every issue of every
  field of the record is among them, so the list is at least as long as the number of
  failing fields (three failing siblings give three entries in the sample); and the
  caller receives one \<^verbatim>\<open>badRequest('ValidationError', { errors: formatYupErrors(e) })\<close>:
  whatever the entry point throws is that error or an error thrown by the formatter
  itself, never the per-field errors.
\<close>

theorem aggregate_validation_error:
  assumes built: "createModelValidator env n createOrUpdate model data
                    (if isDraftOption = JUndefined then JBool False else isDraftOption) = Ok mv"
  shows "testsOf (YRequired mv) = [TRequired]
     \<and> (data = JUndefined \<or> (data = JNull \<and> coerce env mv JNull = JNull) \<longrightarrow>
          createValidateEntity env n createOrUpdate model data isDraftOption =
            and_then
              (formatYupErrors env
                 (ValidationError
                    [Issue [] (if data = JUndefined then ''required'' else ''typeError'')]))
              (\<lambda>errors. Throw (BadRequest ''ValidationError'' errors))
          \<and> (\<forall>out. createValidateEntity env n createOrUpdate model data isDraftOption \<noteq> Ok out))
     \<and> (\<forall>y issues.
          cast env n False None (YRequired mv) data = Ok y \<longrightarrow>
          check env n False [] (YRequired mv) [] y = Ok issues \<longrightarrow>
            (isNil y \<longrightarrow> issues \<noteq> [])
            \<and> validate env n (YRequired mv) data False =
                (if issues = [] then Ok y else Throw (ValidationError issues))
            \<and> createValidateEntity env n createOrUpdate model data isDraftOption =
                (if issues = [] then Ok y
                 else and_then (formatYupErrors env (ValidationError issues))
                        (\<lambda>errors. Throw (BadRequest ''ValidationError'' errors)))
            \<and> (\<forall>fs kvs. mv = YObject fs \<longrightarrow> y = JObj kvs \<longrightarrow>
                 length (filter (\<lambda>(k, f). check env n False [] f [Key k] (obj_get kvs k) \<noteq> Ok [])
                           fs)
                   \<le> length issues
                 \<and> (\<forall>k f ys. (k, f) \<in> set fs \<longrightarrow>
                       check env n False [] f [Key k] (obj_get kvs k) = Ok ys \<longrightarrow>
                       set ys \<subseteq> set issues)))
     \<and> (\<forall>e. createValidateEntity env n createOrUpdate model data isDraftOption = Throw e \<longrightarrow>
          (\<exists>errors. e = BadRequest ''ValidationError'' errors)
          \<or> (\<exists>e'. formatYupErrors env e' = Throw e))"
proof -
  from built obtain fs where mv: "mv = YObject fs"
    by (rule createModelValidator_Ok)
  have tests: "testsOf (YRequired mv) = [TRequired]"
    by (simp add: mv)
  have entry: "createValidateEntity env n createOrUpdate model data isDraftOption =
         (if issues = [] then Ok y
          else and_then (formatYupErrors env (ValidationError issues))
                 (\<lambda>errors. Throw (BadRequest ''ValidationError'' errors)))
       \<and> validate env n (YRequired mv) data False =
                (if issues = [] then Ok y else Throw (ValidationError issues))"
    if "cast env n False None (YRequired mv) data = Ok y"
      and "check env n False [] (YRequired mv) [] y = Ok issues" for y issues
    using that built by (simp add: createValidateEntity_def validate_def Let_def)
  have absent: "createValidateEntity env n createOrUpdate model data isDraftOption =
            and_then
              (formatYupErrors env
                 (ValidationError
                    [Issue [] (if data = JUndefined then ''required'' else ''typeError'')]))
              (\<lambda>errors. Throw (BadRequest ''ValidationError'' errors))
          \<and> (\<forall>out. createValidateEntity env n createOrUpdate model data isDraftOption \<noteq> Ok out)"
    if nil: "data = JUndefined \<or> (data = JNull \<and> coerce env mv JNull = JNull)"
  proof -
    from nil have c: "cast env n False None (YRequired mv) data = Ok data"
      by (auto simp: mv transformed_def Let_def)
    from nil have k: "check env n False [] (YRequired mv) [] data =
        Ok [Issue [] (if data = JUndefined then ''required'' else ''typeError'')]"
      by (auto simp: mv ownIssues_def Let_def)
    from entry [OF c k]
    have eq: "createValidateEntity env n createOrUpdate model data isDraftOption =
            and_then
              (formatYupErrors env
                 (ValidationError
                    [Issue [] (if data = JUndefined then ''required'' else ''typeError'')]))
              (\<lambda>errors. Throw (BadRequest ''ValidationError'' errors))"
      by simp
    have "and_then r (\<lambda>errors. Throw (BadRequest ''ValidationError'' errors)) \<noteq> Ok out"
      for r :: "jsval outcome" and out :: jsval
      by (cases r) simp_all
    with eq show ?thesis by simp
  qed
  have present: "issues \<noteq> []"
    if "check env n False [] (YRequired mv) [] y = Ok issues" "isNil y" for y issues
  proof -
    from that have "issues = ownIssues env (YObject fs) False [TRequired] [] y"
      by (cases y) (auto simp: mv)
    with that show ?thesis by (cases y) (auto simp: ownIssues_Nil)
  qed
  have fields: "length (filter (\<lambda>(k, f). check env n False [] f [Key k] (obj_get kvs k) \<noteq> Ok []) fs')
            \<le> length issues
          \<and> (\<forall>k f ys. (k, f) \<in> set fs' \<longrightarrow>
                check env n False [] f [Key k] (obj_get kvs k) = Ok ys \<longrightarrow>
                set ys \<subseteq> set issues)"
    if "check env n False [] (YRequired mv) [] y = Ok issues" "mv = YObject fs'" "y = JObj kvs"
    for fs' kvs y issues
  proof -
    from that have "check env n False [TRequired] (YObject fs') [] (JObj kvs) = Ok issues"
      by simp
    from check_object_children [OF this] show ?thesis by simp
  qed
  have run: "\<forall>y issues.
          cast env n False None (YRequired mv) data = Ok y \<longrightarrow>
          check env n False [] (YRequired mv) [] y = Ok issues \<longrightarrow>
            (isNil y \<longrightarrow> issues \<noteq> [])
            \<and> validate env n (YRequired mv) data False =
                (if issues = [] then Ok y else Throw (ValidationError issues))
            \<and> createValidateEntity env n createOrUpdate model data isDraftOption =
                (if issues = [] then Ok y
                 else and_then (formatYupErrors env (ValidationError issues))
                        (\<lambda>errors. Throw (BadRequest ''ValidationError'' errors)))
            \<and> (\<forall>fs kvs. mv = YObject fs \<longrightarrow> y = JObj kvs \<longrightarrow>
                 length (filter (\<lambda>(k, f). check env n False [] f [Key k] (obj_get kvs k) \<noteq> Ok [])
                           fs)
                   \<le> length issues
                 \<and> (\<forall>k f ys. (k, f) \<in> set fs \<longrightarrow>
                       check env n False [] f [Key k] (obj_get kvs k) = Ok ys \<longrightarrow>
                       set ys \<subseteq> set issues))"
  proof (intro allI impI)
    fix y issues
    assume c: "cast env n False None (YRequired mv) data = Ok y"
      and k: "check env n False [] (YRequired mv) [] y = Ok issues"
    note e = entry [OF c k]
    note p = present [OF k]
    note f = fields [OF k]
    from e p f show "(isNil y \<longrightarrow> issues \<noteq> [])
            \<and> validate env n (YRequired mv) data False =
                (if issues = [] then Ok y else Throw (ValidationError issues))
            \<and> createValidateEntity env n createOrUpdate model data isDraftOption =
                (if issues = [] then Ok y
                 else and_then (formatYupErrors env (ValidationError issues))
                        (\<lambda>errors. Throw (BadRequest ''ValidationError'' errors)))
            \<and> (\<forall>fs kvs. mv = YObject fs \<longrightarrow> y = JObj kvs \<longrightarrow>
                 length (filter (\<lambda>(k, f). check env n False [] f [Key k] (obj_get kvs k) \<noteq> Ok [])
                           fs)
                   \<le> length issues
                 \<and> (\<forall>k f ys. (k, f) \<in> set fs \<longrightarrow>
                       check env n False [] f [Key k] (obj_get kvs k) = Ok ys \<longrightarrow>
                       set ys \<subseteq> set issues))"
      by (intro conjI) (blast+)
  qed
  have thrown: "\<forall>e. createValidateEntity env n createOrUpdate model data isDraftOption = Throw e \<longrightarrow>
          (\<exists>errors. e = BadRequest ''ValidationError'' errors)
          \<or> (\<exists>e'. formatYupErrors env e' = Throw e)"
    using createValidateEntity_throws by blast
  from absent have absent': "data = JUndefined \<or> (data = JNull \<and> coerce env mv JNull = JNull) \<longrightarrow>
          createValidateEntity env n createOrUpdate model data isDraftOption =
            and_then
              (formatYupErrors env
                 (ValidationError
                    [Issue [] (if data = JUndefined then ''required'' else ''typeError'')]))
              (\<lambda>errors. Throw (BadRequest ''ValidationError'' errors))
          \<and> (\<forall>out. createValidateEntity env n createOrUpdate model data isDraftOption \<noteq> Ok out)"
    by (rule impI)
  show ?thesis
    by (intro conjI) (rule tests, rule absent', rule run, rule thrown)
qed

theorem aggregate_validation_error_witness:
  "createValidateEntity sampleEnv 1 Creation (Some articleSchema) (JObj []) JUndefined =
     Throw (BadRequest ''ValidationError'' (JArr (map issueToJs missingFields)))
   \<and> length missingFields = 3
   \<and> createValidateEntity sampleEnv 1 Update (Some articleSchema) JUndefined JUndefined =
     Throw (BadRequest ''ValidationError'' (JArr [issueToJs (Issue [] ''required'')]))
   \<and> createValidateEntity sampleEnv 1 Creation (Some articleSchema) JNull JUndefined =
     Throw (BadRequest ''ValidationError'' (JArr [issueToJs (Issue [] ''typeError'')]))"
proof -
  have built: "createModelValidator sampleEnv 1 Creation (Some articleSchema) (JObj [])
      (if JUndefined = JUndefined then JBool False else JUndefined) = Ok articleValidator"
    by code_simp
  have casted: "cast sampleEnv 1 False None (YRequired articleValidator) (JObj [])
      = Ok (JObj [(''slug'', JStr ''x'')])"
    by code_simp
  have checked: "check sampleEnv 1 False [] (YRequired articleValidator) []
      (JObj [(''slug'', JStr ''x'')]) = Ok missingFields"
    by code_simp
  have some: "missingFields \<noteq> []" "length missingFields = 3"
    by (simp_all add: missingFields_def)
  from aggregate_validation_error [OF built] casted checked some
  have fields: "createValidateEntity sampleEnv 1 Creation (Some articleSchema) (JObj []) JUndefined =
     Throw (BadRequest ''ValidationError'' (JArr (map issueToJs missingFields)))"
    by (simp add: sampleEnv_def)
  have update: "createModelValidator sampleEnv 1 Update (Some articleSchema) JUndefined
      (if JUndefined = JUndefined then JBool False else JUndefined) =
      Ok (YObject
            [(''title'', YDefault JUndefined (YNotNull (YLeaf titleAttr (JBool False)))),
             (''summary'', YDefault JUndefined (YNotNull (YLeaf titleAttr (JBool False)))),
             (''body'', YDefault JUndefined (YNotNull (YLeaf titleAttr (JBool False)))),
             (''slug'', YDefault JUndefined (YNotNull (YLeaf slugAttr (JBool False)))),
             (''cover'', YDefault JUndefined YMixed)])"
    by code_simp
  from aggregate_validation_error [OF update]
  have absent: "createValidateEntity sampleEnv 1 Update (Some articleSchema) JUndefined JUndefined =
     Throw (BadRequest ''ValidationError'' (JArr [issueToJs (Issue [] ''required'')]))"
    by (simp add: sampleEnv_def)
  have creation: "createModelValidator sampleEnv 1 Creation (Some articleSchema) JNull
      (if JUndefined = JUndefined then JBool False else JUndefined) = Ok articleValidator"
    by code_simp
  have kept: "coerce sampleEnv articleValidator JNull = JNull"
    by (simp add: sampleEnv_def articleValidator_def)
  from aggregate_validation_error [OF creation] kept
  have null: "createValidateEntity sampleEnv 1 Creation (Some articleSchema) JNull JUndefined =
     Throw (BadRequest ''ValidationError'' (JArr [issueToJs (Issue [] ''typeError'')]))"
    by (simp add: sampleEnv_def)
  from fields some absent null show ?thesis by simp
qed

text \<open>
  C4. \<^verbatim>\<open>addMinMax\<close> sets the minimum to the descriptor's \<^verbatim>\<open>min\<close> exactly when
  \<^verbatim>\<open>min\<close> is an integer and the attribute is required or the incoming data is a
  non-empty array, and otherwise leaves the validator's minimum as it was (so on a
  validator without a minimum, one is set if and only if that condition holds); it
  sets the maximum to the descriptor's \<^verbatim>\<open>max\<close> whenever \<^verbatim>\<open>max\<close> is an integer, with no
  further condition.
\<close>

theorem addMinMax_bounds:
  "addMinMax attr validator data =
     (if isInteger (obj_get attr ''max'') then YMax (obj_get attr ''max'') else (\<lambda>v. v))
       ((if isInteger (obj_get attr ''min'')
            \<and> (truthy (obj_get attr ''required'') \<or> nonEmptyArray data)
         then YMin (obj_get attr ''min'') else (\<lambda>v. v)) validator)
   \<and> minOf (addMinMax attr validator data) =
     (if isInteger (obj_get attr ''min'')
         \<and> (truthy (obj_get attr ''required'') \<or> nonEmptyArray data)
      then Some (obj_get attr ''min'') else minOf validator)
   \<and> (minOf validator = None \<longrightarrow>
        (minOf (addMinMax attr validator data) \<noteq> None \<longleftrightarrow>
           isInteger (obj_get attr ''min'')
           \<and> (truthy (obj_get attr ''required'') \<or> nonEmptyArray data)))
   \<and> maxOf (addMinMax attr validator data) =
       (if isInteger (obj_get attr ''max'') then Some (obj_get attr ''max'')
        else maxOf validator)
   \<and> (maxOf validator = None \<longrightarrow>
        (maxOf (addMinMax attr validator data) \<noteq> None \<longleftrightarrow> isInteger (obj_get attr ''max'')))
   \<and> (nonEmptyArray data \<longleftrightarrow> (\<exists>x xs. data = JArr (x # xs)))"
proof -
  have "nonEmptyArray data \<longleftrightarrow> (\<exists>x xs. data = JArr (x # xs))"
    by (cases data) (auto simp: neq_Nil_conv)
  then show ?thesis by (auto simp: addMinMax_def Let_def)
qed

theorem addMinMax_bounds_witness:
  "minOf (addMinMax tagsAttr (YNotNil (YArrayOf YMixed)) (JArr [])) = None
   \<and> minOf (addMinMax tagsAttr (YNotNil (YArrayOf YMixed)) (JArr [JNull])) = Some (JInt 1)
   \<and> minOf (addMinMax ((''required'', JBool True) # tagsAttr) (YNotNil (YArrayOf YMixed))
              JUndefined) = Some (JInt 1)
   \<and> maxOf (addMinMax [(''max'', JInt 3)] (YNotNil (YArrayOf YMixed)) JUndefined)
       = Some (JInt 3)
   \<and> maxOf (addMinMax [(''max'', JNonInt ''2.5'')] (YNotNil (YArrayOf YMixed)) JUndefined)
       = None"
  using addMinMax_bounds [of tagsAttr "YNotNil (YArrayOf YMixed)" "JArr []"]
    addMinMax_bounds [of tagsAttr "YNotNil (YArrayOf YMixed)" "JArr [JNull]"]
    addMinMax_bounds [of "(''required'', JBool True) # tagsAttr" "YNotNil (YArrayOf YMixed)"
      JUndefined]
    addMinMax_bounds [of "[(''max'', JInt 3)]" "YNotNil (YArrayOf YMixed)" JUndefined]
    addMinMax_bounds [of "[(''max'', JNonInt ''2.5'')]" "YNotNil (YArrayOf YMixed)" JUndefined]
  by (simp add: tagsAttr_def obj_get_def)

text \<open>
  C5, as amended. For the schema
  \<^verbatim>\<open>{tags: {type: component, repeatable: true, min: 1}, target: {type: component}}\<close> in
  creation mode, validating \<^verbatim>\<open>{tags: []}\<close> succeeds and returns the record, whenever
  the validator can be built: \<^verbatim>\<open>tags\<close> is not required and the incoming array is
  empty, so \<^verbatim>\<open>addMinMax\<close> sets no minimum on \<^verbatim>\<open>tags\<close> and its checks report nothing
  on the empty array.
\<close>

theorem empty_tags_pass:
  assumes built: "createModelValidator env n Creation (Some tagsSchema) emptyTags
                    (if isDraftOption = JUndefined then JBool False else isDraftOption) = Ok mv"
  shows "validateEntityCreation env n (Some tagsSchema) emptyTags isDraftOption = Ok emptyTags
     \<and> \<not> nonEmptyArray (js_get emptyTags ''tags'')
     \<and> \<not> truthy (obj_get tagsAttr ''required'')
     \<and> (\<forall>k isDraft f.
           createAttributeValidator env k Creation tagsAttr (js_get emptyTags ''tags'') isDraft
             = Ok f \<longrightarrow>
           minOf f = None \<and> check env m False [] f [Key ''tags''] (JArr []) = Ok [])"
proof -
  have entry: "validateEntityCreation env n (Some tagsSchema) emptyTags isDraftOption = Ok emptyTags"
    using built empty_tags_validate [OF built]
    by (simp add: validateEntityCreation_def createValidateEntity_def Let_def)
  have data: "js_get emptyTags ''tags'' = JArr []"
    by (simp add: emptyTags_def obj_get_def)
  have attr: "\<not> truthy (obj_get tagsAttr ''required'')"
    by (simp add: tagsAttr_def obj_get_def)
  have field: "minOf f = None \<and> check env m False [] f [Key ''tags''] (JArr []) = Ok []"
    if "createAttributeValidator env k Creation tagsAttr (js_get emptyTags ''tags'') isDraft = Ok f"
    for k isDraft f
    using tags_field [OF that [unfolded data]] by (auto simp: ownIssues_def)
  from entry data attr field show ?thesis by simp
qed

theorem empty_tags_pass_witness:
  "validateEntityCreation sampleEnv 2 (Some tagsSchema) emptyTags JUndefined = Ok emptyTags
   \<and> \<not> nonEmptyArray (js_get emptyTags ''tags'')"
proof -
  have "createModelValidator sampleEnv 2 Creation (Some tagsSchema) emptyTags
          (if JUndefined = JUndefined then JBool False else JUndefined)
        = Ok (YObject
               [(''tags'', YDefault (JArr [])
                   (YTransformOriginal
                      (YNotNil (YArrayOf (YLazy (ComponentItem Creation tagModel (JBool False))))))),
                (''target'', YDefault JUndefined
                   (YTransformOriginal
                      (YNullable
                         (YObject [(''name'', YDefault JUndefined
                                      (YNotNil (YLeaf [(''type'', JStr ''string''),
                                                       (''required'', JBool True)]
                                                  (JBool False))))]))))])"
    by code_simp
  from empty_tags_pass [OF this] show ?thesis by simp
qed

text \<open>
  The claim as stated, that this validation fails with a min-length error on
  \<^verbatim>\<open>tags\<close>, is false with the sample registry: the call returns the record.
\<close>

theorem empty_tags_counterexample:
  "validateEntityCreation sampleEnv 2 (Some tagsSchema) emptyTags JUndefined = Ok emptyTags"
  by code_simp

text \<open>
  C6. The container of a sequence. For a component with \<^verbatim>\<open>repeatable === true\<close> (the
  test \<^verbatim>\<open>createComponentValidator\<close> makes) and for a dynamic zone, in either mode and
  whatever \<^verbatim>\<open>isDraft\<close> and the descriptor's \<^verbatim>\<open>required\<close> are, the node is an array of
  lazily resolved items whose first test is the required modifier applied with the flag
  \<^verbatim>\<open>true\<close> (\<^verbatim>\<open>notNil\<close> in creation mode, \<^verbatim>\<open>notNull\<close> in update mode), and it is never
  marked nullable. The node is built whatever the fuel, unless the registry has no
  model for the component. Each item of a repeatable component resolves to the
  component's model validator, built on the item, with \<^verbatim>\<open>notNull()\<close> added: whenever
  that model validator is built the item resolves, to a node that has the test
  \<^verbatim>\<open>notNull\<close> and is not marked nullable.
\<close>

theorem sequence_container_never_nullable:
  assumes not_media: "\<not> isMedia attr"
    and category:
      "(obj_get attr ''type'' = JStr ''component''
          \<and> obj_get_or attr ''repeatable'' (JBool False) = JBool True)
       \<or> obj_get attr ''type'' = JStr ''dynamiczone''"
  shows "(createAttributeValidator env n createOrUpdate attr data isDraft = Ok v \<longrightarrow>
       (\<exists>l. v = addDefault createOrUpdate attr
                  (preventCast
                     (addMinMax attr
                        (addRequiredValidation createOrUpdate (JBool True)
                           (YArrayOf (YLazy l)))
                        data)))
       \<and> \<not> isNullable v
       \<and> (\<exists>bounds. testsOf v =
             (case createOrUpdate of Creation \<Rightarrow> TNotNil | Update \<Rightarrow> TNotNull) # bounds)
       \<and> (\<exists>l. baseOf v = YArrayOf (YLazy l)
              \<and> (obj_get attr ''type'' = JStr ''component'' \<longrightarrow>
                    (\<exists>model others. getModelsByAttribute env attr = model # others
                        \<and> l = ComponentItem createOrUpdate model isDraft))
              \<and> (obj_get attr ''type'' = JStr ''dynamiczone'' \<longrightarrow>
                    l = DzItem createOrUpdate isDraft)))
     \<and> (obj_get attr ''type'' = JStr ''dynamiczone'' \<or> getModelsByAttribute env attr \<noteq> [] \<longrightarrow>
          (\<exists>v'. createAttributeValidator env n createOrUpdate attr data isDraft = Ok v'))
     \<and> (\<forall>model item e.
           resolveLazy env k (ComponentItem createOrUpdate model isDraft) item = Ok e \<longrightarrow>
             (\<exists>mv. e = YNotNull mv \<and> baseOf e = mv) \<and> \<not> isNullable e
             \<and> testsOf e = [TNotNull])
     \<and> (\<forall>model item.
           resolveLazy env k (ComponentItem createOrUpdate model isDraft) item =
             map_ok YNotNull
               (createModelValidator env k createOrUpdate (Some model) item isDraft))
     \<and> (\<forall>model item mv.
           createModelValidator env k createOrUpdate (Some model) item isDraft = Ok mv \<longrightarrow>
             resolveLazy env k (ComponentItem createOrUpdate model isDraft) item =
               Ok (YNotNull mv)
             \<and> \<not> isNullable (YNotNull mv) \<and> testsOf (YNotNull mv) = [TNotNull])"
proof -
  have shape: "(\<exists>l. v = addDefault createOrUpdate attr
                  (preventCast
                     (addMinMax attr
                        (addRequiredValidation createOrUpdate (JBool True)
                           (YArrayOf (YLazy l)))
                        data)))
     \<and> \<not> isNullable v
     \<and> (\<exists>bounds. testsOf v =
           (case createOrUpdate of Creation \<Rightarrow> TNotNil | Update \<Rightarrow> TNotNull) # bounds)
     \<and> (\<exists>l. baseOf v = YArrayOf (YLazy l)
            \<and> (obj_get attr ''type'' = JStr ''component'' \<longrightarrow>
                  (\<exists>model others. getModelsByAttribute env attr = model # others
                      \<and> l = ComponentItem createOrUpdate model isDraft))
            \<and> (obj_get attr ''type'' = JStr ''dynamiczone'' \<longrightarrow>
                  l = DzItem createOrUpdate isDraft))"
    if built: "createAttributeValidator env n createOrUpdate attr data isDraft = Ok v"
    using built
  proof (cases rule: createAttributeValidator_cases)
    case media
    with not_media show ?thesis by simp
  next
    case simple
    with category show ?thesis by (auto simp: isSimpleAttribute_def)
  next
    case (repeatable model others)
    then show ?thesis by (auto simp: observe split: mode.splits)
  next
    case (singular model others mv)
    with category show ?thesis by simp
  next
    case dz
    then show ?thesis by (auto simp: observe createDzValidator_def split: mode.splits)
  next
    case relation
    with category show ?thesis by simp
  qed
  have returns: "\<exists>v'. createAttributeValidator env n createOrUpdate attr data isDraft = Ok v'"
    if "obj_get attr ''type'' = JStr ''dynamiczone'' \<or> getModelsByAttribute env attr \<noteq> []"
    using that not_media category
    by (cases "getModelsByAttribute env attr") (auto simp: isSimpleAttribute_def)
  have items: "(\<exists>mv. e = YNotNull mv \<and> baseOf e = mv) \<and> \<not> isNullable e
             \<and> testsOf e = [TNotNull]"
    if "resolveLazy env k (ComponentItem createOrUpdate model isDraft) item = Ok e"
    for model item e
  proof -
    from that obtain mv where e: "e = YNotNull mv"
      and "createModelValidator env k createOrUpdate (Some model) item isDraft = Ok mv"
      by (auto simp: map_ok_Ok)
    then obtain fs where mv: "mv = YObject fs"
      by (auto elim: createModelValidator_Ok)
    with e show ?thesis by simp
  qed
  have resolves: "resolveLazy env k (ComponentItem createOrUpdate model isDraft) item =
             map_ok YNotNull
               (createModelValidator env k createOrUpdate (Some model) item isDraft)"
    for model item
    by simp
  have resolved: "resolveLazy env k (ComponentItem createOrUpdate model isDraft) item =
               Ok (YNotNull mv)
             \<and> \<not> isNullable (YNotNull mv) \<and> testsOf (YNotNull mv) = [TNotNull]"
    if "createModelValidator env k createOrUpdate (Some model) item isDraft = Ok mv"
    for model item mv
  proof -
    from that obtain fs where "mv = YObject fs"
      by (auto elim: createModelValidator_Ok)
    with that show ?thesis by simp
  qed
  from shape returns items resolves resolved show ?thesis by blast
qed

theorem sequence_container_never_nullable_witness:
  "\<not> isNullable
       (YDefault JUndefined
          (YTransformOriginal
             (YNotNull (YArrayOf (YLazy (ComponentItem Update tagModel (JBool True)))))))
   \<and> \<not> isNullable
       (YDefault (JArr [])
          (YTransformOriginal (YNotNil (YArrayOf (YLazy (DzItem Creation (JBool True)))))))
   \<and> resolveLazy sampleEnv 1 (ComponentItem Update tagModel (JBool True)) (JObj []) =
       Ok (YNotNull
             (YObject [(''name'', YDefault JUndefined
                                    (YNullable (YLeaf [(''type'', JStr ''string''),
                                                       (''required'', JBool True)]
                                                  (JBool True))))]))
   \<and> validateEntityUpdate sampleEnv 2 (Some tagsSchema) (JObj [(''tags'', JArr [JNull])])
       (JBool True) =
       Throw (BadRequest ''ValidationError''
                (JArr [issueToJs (Issue [Key ''tags'', Index 0] ''typeError'')]))"
proof -
  have component: "createAttributeValidator sampleEnv 1 Update tagsAttr JUndefined (JBool True) =
      Ok (YDefault JUndefined
            (YTransformOriginal
               (YNotNull (YArrayOf (YLazy (ComponentItem Update tagModel (JBool True)))))))"
    by code_simp
  have zone: "createAttributeValidator sampleEnv 1 Creation [(''type'', JStr ''dynamiczone'')]
                JUndefined (JBool True) =
      Ok (YDefault (JArr [])
            (YTransformOriginal (YNotNil (YArrayOf (YLazy (DzItem Creation (JBool True)))))))"
    by code_simp
  have c1: "\<not> isMedia tagsAttr"
    "(obj_get tagsAttr ''type'' = JStr ''component''
          \<and> obj_get_or tagsAttr ''repeatable'' (JBool False) = JBool True)
       \<or> obj_get tagsAttr ''type'' = JStr ''dynamiczone''"
    by (simp_all add: isMedia_def tagsAttr_def obj_get_def obj_get_or_def js_or_def)
  have c2: "\<not> isMedia [(''type'', JStr ''dynamiczone'')]"
    "(obj_get [(''type'', JStr ''dynamiczone'')] ''type'' = JStr ''component''
          \<and> obj_get_or [(''type'', JStr ''dynamiczone'')] ''repeatable'' (JBool False) = JBool True)
       \<or> obj_get [(''type'', JStr ''dynamiczone'')] ''type'' = JStr ''dynamiczone''"
    by (simp_all add: isMedia_def obj_get_def obj_get_or_def js_or_def)
  have item: "createModelValidator sampleEnv 1 Update (Some tagModel) (JObj []) (JBool True) =
      Ok (YObject [(''name'', YDefault JUndefined
                                (YNullable (YLeaf [(''type'', JStr ''string''),
                                                   (''required'', JBool True)]
                                              (JBool True))))])"
    by code_simp
  have run: "validateEntityUpdate sampleEnv 2 (Some tagsSchema) (JObj [(''tags'', JArr [JNull])])
       (JBool True) =
       Throw (BadRequest ''ValidationError''
                (JArr [issueToJs (Issue [Key ''tags'', Index 0] ''typeError'')]))"
    by code_simp
  note container = sequence_container_never_nullable [OF c1,
      of sampleEnv 1 Update JUndefined "JBool True"
        "YDefault JUndefined
           (YTransformOriginal
              (YNotNull (YArrayOf (YLazy (ComponentItem Update tagModel (JBool True))))))" 1]
  note dzone = sequence_container_never_nullable [OF c2,
      of sampleEnv 1 Creation JUndefined "JBool True"
        "YDefault (JArr [])
           (YTransformOriginal (YNotNil (YArrayOf (YLazy (DzItem Creation (JBool True))))))" 0]
  from container component
  have r1: "\<not> isNullable
       (YDefault JUndefined
          (YTransformOriginal
             (YNotNull (YArrayOf (YLazy (ComponentItem Update tagModel (JBool True)))))))"
    by blast
  from dzone zone
  have r2: "\<not> isNullable
       (YDefault (JArr [])
          (YTransformOriginal (YNotNil (YArrayOf (YLazy (DzItem Creation (JBool True)))))))"
    by blast
  from container item
  have r3: "resolveLazy sampleEnv 1 (ComponentItem Update tagModel (JBool True)) (JObj []) =
       Ok (YNotNull
             (YObject [(''name'', YDefault JUndefined
                                    (YNullable (YLeaf [(''type'', JStr ''string''),
                                                       (''required'', JBool True)]
                                                  (JBool True))))]))"
    by blast
  from r1 r2 r3 run show ?thesis by blast
qed

text \<open>
  C7. Non-writable attributes. The model validator is an object node whose shape has no
  key among the model's non-writable attribute names, whatever the category of the
  attribute; with no model the shape is empty, and \<^verbatim>\<open>getNonWritableAttributes\<close> is not
  consulted. Consequently no issue found by that node, at whatever path \<open>p\<close> it sits,
  has a path that continues \<open>p\<close> with a non-writable attribute name.
\<close>

theorem non_writable_excluded:
  assumes built: "createModelValidator env n createOrUpdate model data isDraft = Ok mv"
  shows "\<exists>fs. mv = YObject fs
     \<and> (\<forall>k \<in> set (case model of Some m \<Rightarrow> getNonWritableAttributes env m | None \<Rightarrow> []).
          k \<notin> fst ` set fs)
     \<and> (model = None \<longrightarrow> fs = [])
     \<and> (\<forall>issues i. check env m nl ts mv p x = Ok issues \<longrightarrow> i \<in> set issues \<longrightarrow>
          (\<forall>k \<in> set (case model of Some m \<Rightarrow> getNonWritableAttributes env m | None \<Rightarrow> []).
             \<forall>rest. issue_path i \<noteq> p @ Key k # rest))"
proof -
  let ?nw = "set (case model of Some m \<Rightarrow> getNonWritableAttributes env m | None \<Rightarrow> [])"
  let ?attrs = "case model of
                  None \<Rightarrow> []
                | Some m \<Rightarrow> (case attributes m of None \<Rightarrow> [] | Some attrs \<Rightarrow> attrs)"
  from built obtain n' fs where mv: "mv = YObject fs"
    and m: "mapValuesWithKey
       (\<lambda>attr attrName.
          createAttributeValidator env n' createOrUpdate attr (js_get data attrName) isDraft)
       (pickByWithKey (\<lambda>attr attrName. attrName \<notin> ?nw) ?attrs) = Ok fs"
    by (rule createModelValidator_Ok)
  from mapValuesWithKey_keys [OF m]
  have keys: "fst ` set fs = fst ` set (pickByWithKey (\<lambda>attr attrName. attrName \<notin> ?nw) ?attrs)"
    by (metis set_map)
  then have excluded: "\<forall>k \<in> ?nw. k \<notin> fst ` set fs"
    using pickByWithKey_keys by blast
  from m have absent: "model = None \<longrightarrow> fs = []"
    by (auto simp: pickByWithKey_def)
  have paths: "\<forall>k \<in> ?nw. \<forall>rest. issue_path i \<noteq> p @ Key k # rest"
    if "check env m nl ts mv p x = Ok issues" "i \<in> set issues" for issues i
    using check_object_paths [OF that(1) [unfolded mv] that(2)] excluded by fastforce
  from mv excluded absent paths show ?thesis by blast
qed

theorem non_writable_excluded_witness:
  "createModelValidator sampleEnv 1 Creation (Some articleSchema) (JObj []) (JBool False)
     = Ok articleValidator
   \<and> (\<exists>fs. articleValidator = YObject fs \<and> ''id'' \<notin> fst ` set fs)"
proof -
  have built: "createModelValidator sampleEnv 1 Creation (Some articleSchema) (JObj [])
      (JBool False) = Ok articleValidator"
    by code_simp
  have "''id'' \<in> set (case Some articleSchema of
                         Some m \<Rightarrow> getNonWritableAttributes sampleEnv m | None \<Rightarrow> [])"
    by (simp add: sampleEnv_def)
  with non_writable_excluded [OF built, of 0 False "[]" "[]" JUndefined]
  have "\<exists>fs. articleValidator = YObject fs \<and> ''id'' \<notin> fst ` set fs"
    by auto
  with built show ?thesis by simp
qed



text \<open>
  C9. Dynamic-zone entries. The node of a dynamic zone is an array whose items are
  resolved lazily on each entry: \<^verbatim>\<open>strapi.getModel\<close> is asked for the entry's
  \<^verbatim>\<open>__component\<close>. The entry schema is a \<^verbatim>\<open>notNull\<close> object whose \<^verbatim>\<open>__component\<close> is
  a required string, one of the keys of \<^verbatim>\<open>strapi.components\<close>. When no model is found
  the entry schema is the whole validator of the entry, with no model validator in it;
  when one is found the validator is the entry schema concatenated with the validator
  of that model, built on the entry.
\<close>

theorem dynamic_zone_discriminated_union:
  "(\<not> isMedia attr \<and> obj_get attr ''type'' = JStr ''dynamiczone'' \<longrightarrow>
      (\<exists>v. createAttributeValidator env k createOrUpdate attr data isDraft = Ok v
          \<and> baseOf v = YArrayOf (YLazy (DzItem createOrUpdate isDraft))))
   \<and> (getModel env (js_get item ''__component'') = None \<longrightarrow>
        resolveLazy env n (DzItem createOrUpdate isDraft) item = Ok (dzEntrySchema env))
   \<and> (\<forall>model. getModel env (js_get item ''__component'') = Some model \<longrightarrow>
        resolveLazy env n (DzItem createOrUpdate isDraft) item =
          map_ok (YConcat (dzEntrySchema env))
            (createModelValidator env n createOrUpdate (Some model) item isDraft))
   \<and> dzEntrySchema env =
       YNotNull (YObject [(''__component'', YOneOf (components env) (YRequired YString))])
   \<and> \<not> isNullable (dzEntrySchema env)
   \<and> testsOf (YOneOf (components env) (YRequired YString)) = [TRequired, TOneOf (components env)]"
proof -
  have node: "\<not> isMedia attr \<and> obj_get attr ''type'' = JStr ''dynamiczone'' \<longrightarrow>
      (\<exists>v. createAttributeValidator env k createOrUpdate attr data isDraft = Ok v
          \<and> baseOf v = YArrayOf (YLazy (DzItem createOrUpdate isDraft)))"
    by (simp add: isSimpleAttribute_def createDzValidator_def observe)
  have unknown: "getModel env (js_get item ''__component'') = None \<longrightarrow>
        resolveLazy env n (DzItem createOrUpdate isDraft) item = Ok (dzEntrySchema env)"
    by simp
  have known: "\<forall>model. getModel env (js_get item ''__component'') = Some model \<longrightarrow>
        resolveLazy env n (DzItem createOrUpdate isDraft) item =
          map_ok (YConcat (dzEntrySchema env))
            (createModelValidator env n createOrUpdate (Some model) item isDraft)"
    by simp
  have schema: "dzEntrySchema env =
       YNotNull (YObject [(''__component'', YOneOf (components env) (YRequired YString))])"
    "\<not> isNullable (dzEntrySchema env)"
    "testsOf (YOneOf (components env) (YRequired YString)) = [TRequired, TOneOf (components env)]"
    by (simp_all add: dzEntrySchema_def)
  from node unknown known schema show ?thesis by blast
qed

theorem dynamic_zone_discriminated_union_witness:
  "resolveLazy sampleEnv 1 (DzItem Creation (JBool False)) unknownEntry
     = Ok (dzEntrySchema sampleEnv)
   \<and> resolveLazy sampleEnv 1 (DzItem Creation (JBool False)) knownEntry
     = Ok (YConcat (dzEntrySchema sampleEnv)
             (YObject [(''name'', YDefault JUndefined
                                    (YNotNil (YLeaf [(''type'', JStr ''string''),
                                                     (''required'', JBool True)]
                                                (JBool False))))]))"
proof -
  have unknown: "getModel sampleEnv (js_get unknownEntry ''__component'') = None"
    by (simp add: sampleEnv_def unknownEntry_def obj_get_def)
  have known: "getModel sampleEnv (js_get knownEntry ''__component'') = Some tagModel"
    by (simp add: sampleEnv_def knownEntry_def obj_get_def)
  have built: "createModelValidator sampleEnv 1 Creation (Some tagModel) knownEntry (JBool False)
     = Ok (YObject [(''name'', YDefault JUndefined
                                    (YNotNil (YLeaf [(''type'', JStr ''string''),
                                                     (''required'', JBool True)]
                                                (JBool False))))])"
    by code_simp
  note unknown_case = dynamic_zone_discriminated_union
    [where env = sampleEnv and n = 1 and createOrUpdate = Creation and isDraft = "JBool False"
       and item = unknownEntry and attr = "[]" and data = JNull and k = 0]
  note known_case = dynamic_zone_discriminated_union
    [where env = sampleEnv and n = 1 and createOrUpdate = Creation and isDraft = "JBool False"
       and item = knownEntry and attr = "[]" and data = JNull and k = 0]
  from unknown_case unknown
  have r1: "resolveLazy sampleEnv 1 (DzItem Creation (JBool False)) unknownEntry
     = Ok (dzEntrySchema sampleEnv)"
    by blast
  from known_case known
  have "resolveLazy sampleEnv 1 (DzItem Creation (JBool False)) knownEntry =
          map_ok (YConcat (dzEntrySchema sampleEnv))
            (createModelValidator sampleEnv 1 Creation (Some tagModel) knownEntry (JBool False))"
    by blast
  with built
  have r2: "resolveLazy sampleEnv 1 (DzItem Creation (JBool False)) knownEntry
     = Ok (YConcat (dzEntrySchema sampleEnv)
             (YObject [(''name'', YDefault JUndefined
                                    (YNotNil (YLeaf [(''type'', JStr ''string''),
                                                     (''required'', JBool True)]
                                                (JBool False))))]))"
    by (simp only: map_ok.simps)
  from r1 r2 show ?thesis by blast
qed

text \<open>
  C10. Media attributes. For an attribute whose \<^verbatim>\<open>collection\<close> or \<^verbatim>\<open>model\<close> is
  \<^verbatim>\<open>file\<close> and whose \<^verbatim>\<open>plugin\<close> is \<^verbatim>\<open>upload\<close>, whatever its \<^verbatim>\<open>required\<close>, the
  validator is \<^verbatim>\<open>yup.mixed()\<close> with the default modifier and nothing else: no test
  (so nothing that could report an absent value), no nullable mark, no bound, no cast
  prevention.
\<close>

theorem media_unconstrained:
  assumes "isMedia attr"
  shows "createAttributeValidator env n createOrUpdate attr data isDraft =
           Ok (addDefault createOrUpdate attr YMixed)
     \<and> baseOf (addDefault createOrUpdate attr YMixed) = YMixed
     \<and> testsOf (addDefault createOrUpdate attr YMixed) = []
     \<and> \<not> isNullable (addDefault createOrUpdate attr YMixed)
     \<and> minOf (addDefault createOrUpdate attr YMixed) = None
     \<and> maxOf (addDefault createOrUpdate attr YMixed) = None
     \<and> \<not> castPrevented (addDefault createOrUpdate attr YMixed)
     \<and> explicitDefault (addDefault createOrUpdate attr YMixed) \<noteq> None"
  using assms by (simp add: observe explicitDefault_addDefault)

theorem media_unconstrained_witness:
  "createAttributeValidator sampleEnv 1 Creation coverAttr JUndefined (JBool False) =
     Ok (YDefault JUndefined YMixed)
   \<and> testsOf (YDefault JUndefined YMixed) = []
   \<and> validateEntityCreation sampleEnv 2 (Some articleSchema)
       (JObj [(''title'', JStr ''a''), (''summary'', JStr ''b''), (''body'', JStr ''c'')])
       JUndefined
     = Ok (JObj [(''title'', JStr ''a''), (''summary'', JStr ''b''), (''body'', JStr ''c''),
                 (''slug'', JStr ''x'')])"
proof -
  have media: "isMedia coverAttr"
    by (simp add: isMedia_def coverAttr_def obj_get_def js_or_def)
  have node: "addDefault Creation coverAttr YMixed = YDefault JUndefined YMixed"
    by (simp add: addDefault_def coverAttr_def obj_get_def)
  have run: "validateEntityCreation sampleEnv 2 (Some articleSchema)
       (JObj [(''title'', JStr ''a''), (''summary'', JStr ''b''), (''body'', JStr ''c'')])
       JUndefined
     = Ok (JObj [(''title'', JStr ''a''), (''summary'', JStr ''b''), (''body'', JStr ''c''),
                 (''slug'', JStr ''x'')])"
    by code_simp
  from media_unconstrained [OF media, of sampleEnv 1 Creation JUndefined "JBool False"] node run
  show ?thesis by simp
qed

end
